theory Spec2Isabelle
  imports Complex_Main
begin

section \<open>JavaScript values\<close>

text \<open>
  The bridge handles JSON-shaped JavaScript values only: parameter bags come from query
  strings and parsed JSON bodies, backend bodies from \<open>JSON.parse\<close>. A number is
  modelled by the exact value it denotes (every finite double is a rational; the two
  zeros are identified, which no operation of the source tells apart), so the model
  admits more numbers than IEEE doubles and every theorem holds for all of them.
  Strings are lists of code units in the 8-bit range, which covers every literal of the
  source. Objects are association lists in insertion order (the engine lists
  integer-like keys first; no lookup depends on the order). The \<open>console.log\<close> lines
  of the source are left out: on these values none of them can throw.
\<close>

datatype jsnum = NaN | NegInf | Num rat | PosInf

datatype jsval =
    JUndefined
  | JNull
  | JBool bool
  | JNum jsnum
  | JStr string
  | JArr "jsval list"
  | JObj "(string \<times> jsval) list"

text \<open>\<open>a < b\<close> on numbers: false as soon as one side is NaN.\<close>

definition js_lt :: "jsnum \<Rightarrow> jsnum \<Rightarrow> bool" where
  "js_lt a b =
     (case (a, b) of
        (Num x, Num y) \<Rightarrow> x < y
      | (NegInf, Num _) \<Rightarrow> True
      | (NegInf, PosInf) \<Rightarrow> True
      | (Num _, PosInf) \<Rightarrow> True
      | _ \<Rightarrow> False)"

definition isNaN :: "jsnum \<Rightarrow> bool" where
  "isNaN n = (n = NaN)"

text \<open>ToBoolean: what \<open>!x\<close>, \<open>x || y\<close> and \<open>x ? a : b\<close> test.\<close>

fun truthy :: "jsval \<Rightarrow> bool" where
  "truthy JUndefined = False"
| "truthy JNull = False"
| "truthy (JBool b) = b"
| "truthy (JNum n) = (n \<noteq> NaN \<and> n \<noteq> Num 0)"
| "truthy (JStr s) = (s \<noteq> [])"
| "truthy (JArr _) = True"
| "truthy (JObj _) = True"

definition js_or :: "jsval \<Rightarrow> jsval \<Rightarrow> jsval" where
  "js_or a b = (if truthy a then a else b)"

text \<open>\<open>typeof v === 'string'\<close>\<close>

definition js_typeof_string :: "jsval \<Rightarrow> bool" where
  "js_typeof_string v = (case v of JStr _ \<Rightarrow> True | _ \<Rightarrow> False)"

text \<open>
  A property read \<open>v.k\<close>. Reading from \<open>undefined\<close> or \<open>null\<close> throws a TypeError
  (\<open>None\<close>); a missing property reads as \<open>undefined\<close>. The source reads only
  property names that no prototype supplies, so primitives and arrays read as
  \<open>undefined\<close>.
\<close>

fun js_get :: "jsval \<Rightarrow> string \<Rightarrow> jsval option" where
  "js_get JUndefined k = None"
| "js_get JNull k = None"
| "js_get (JObj kvs) k = Some (case map_of kvs k of Some v \<Rightarrow> v | None \<Rightarrow> JUndefined)"
| "js_get v k = Some JUndefined"

text \<open>Optional chaining \<open>v?.k\<close>.\<close>

definition js_get_opt :: "jsval \<Rightarrow> string \<Rightarrow> jsval" where
  "js_get_opt v k = (case js_get v k of None \<Rightarrow> JUndefined | Some x \<Rightarrow> x)"

text \<open>Destructuring a parameter bag: \<open>const { k } = params\<close> and \<open>const { k = d } = params\<close>.\<close>

type_synonym bag = "(string \<times> jsval) list"

definition param :: "bag \<Rightarrow> string \<Rightarrow> jsval" where
  "param params k = (case map_of params k of Some v \<Rightarrow> v | None \<Rightarrow> JUndefined)"

definition param_default :: "bag \<Rightarrow> string \<Rightarrow> jsval \<Rightarrow> jsval" where
  "param_default params k d = (if param params k = JUndefined then d else param params k)"

text \<open>Writing a property: an existing key keeps its place, a new key goes last.\<close>

fun obj_set :: "(string \<times> 'a) list \<Rightarrow> string \<Rightarrow> 'a \<Rightarrow> (string \<times> 'a) list" where
  "obj_set [] k v = [(k, v)]"
| "obj_set ((k', v') # kvs) k v = (if k' = k then (k, v) # kvs else (k', v') # obj_set kvs k v)"

text \<open>Object spread \<open>{...a, ...b}\<close>.\<close>

fun obj_spread :: "(string \<times> 'a) list \<Rightarrow> (string \<times> 'a) list \<Rightarrow> (string \<times> 'a) list" where
  "obj_spread a [] = a"
| "obj_spread a ((k, v) # b) = obj_spread (obj_set a k v) b"

section \<open>Strings\<close>

definition js_ws :: "char \<Rightarrow> bool" where
  "js_ws c = (c \<in> {CHR 0x09, CHR 0x0A, CHR 0x0B, CHR 0x0C, CHR 0x0D, CHR 0x20, CHR 0xA0})"

definition trim :: "string \<Rightarrow> string" where
  "trim s = rev (dropWhile js_ws (rev (dropWhile js_ws s)))"

fun startsWith :: "string \<Rightarrow> string \<Rightarrow> bool" where
  "startsWith s [] = True"
| "startsWith [] (p # ps) = False"
| "startsWith (c # cs) (p # ps) = (c = p \<and> startsWith cs ps)"

fun js_includes :: "string \<Rightarrow> string \<Rightarrow> bool" where
  "js_includes [] p = (p = [])"
| "js_includes (c # cs) p = (startsWith (c # cs) p \<or> js_includes cs p)"

text \<open>\<open>s.split('\n')\<close>: the empty string splits into one empty line.\<close>

fun split_nl :: "string \<Rightarrow> string list" where
  "split_nl [] = [[]]"
| "split_nl (c # cs) =
     (if c = CHR 0x0A then [] # split_nl cs
      else (case split_nl cs of [] \<Rightarrow> [[c]] | l # ls \<Rightarrow> (c # l) # ls))"

text \<open>\<open>path.replace(/\/$/, '')\<close>: one trailing slash is removed.\<close>

definition strip_trailing_slash :: "string \<Rightarrow> string" where
  "strip_trailing_slash p = (if p \<noteq> [] \<and> last p = CHR ''/'' then butlast p else p)"

definition lower_char :: "char \<Rightarrow> char" where
  "lower_char c =
     (let n = of_char c :: nat in
      if (65 \<le> n \<and> n \<le> 90) \<or> (192 \<le> n \<and> n \<le> 222 \<and> n \<noteq> 215) then char_of (n + 32) else c)"

definition toLowerCase :: "string \<Rightarrow> string" where
  "toLowerCase s = map lower_char s"

text \<open>Decimal digits of a natural number: how a template literal prints \<open>Date.now()\<close>.\<close>

function dec_str :: "nat \<Rightarrow> string" where
  "dec_str n = (if n < 10 then [char_of (48 + n)] else dec_str (n div 10) @ [char_of (48 + n mod 10)])"
  by pat_completeness auto
termination
  by (relation "measure id") auto

declare dec_str.simps [simp del]

text \<open>\<open>text.substring(0, n) + (text.length > n ? '...' : '')\<close>.\<close>

definition preview :: "nat \<Rightarrow> string \<Rightarrow> string" where
  "preview n s = take n s @ (if length s > n then ''...'' else [])"

definition js_length :: "string \<Rightarrow> jsval" where
  "js_length s = JNum (Num (of_nat (length s)))"

section \<open>Exceptions and the runtime\<close>

datatype exn_kind = ErrorK | TypeErrorK | SyntaxErrorK

datatype exn = Exn exn_kind string

fun message :: "exn \<Rightarrow> string" where
  "message (Exn k m) = m"

record 'b reply =
  statusCode :: nat
  body :: 'b

record 'b http_reply = "'b reply" +
  headers :: "(string \<times> string) list"

text \<open>What \<open>protocol.request(reqOptions, ...)\<close> and \<open>req.write\<close> put on the wire.\<close>

record wire_request =
  w_secure :: bool
  w_hostname :: string
  w_port :: string
  w_path :: string
  w_method :: string
  w_headers :: "(string \<times> string) list"
  w_payload :: "string option"

record url_obj =
  protocol :: string
  hostname :: string
  port :: string
  pathname :: string
  search :: string

text \<open>
  Everything the source takes from its environment is a parameter of the model: the
  process environment, the clock, the built-in parsers and serialiser, the messages the
  engine gives its own TypeErrors, and the network. The network answers a request
  either with an \<open>error\<close> event (its message, \<open>Inl\<close>) or with a complete response
  (\<open>Inr\<close>: status, headers and the accumulated data). The source sets no timeout; a
  request that is never answered leaves the promise pending for the platform to cut
  off, and is not modelled. The clock is read as the two values the runtime supplies.
\<close>

record runtime =
  env_MCP_SERVER_URL :: "string option"
  env_NODE_ENV :: "string option"
  Date_now :: nat
  toISOString_now :: string
  JSON_parse :: "string \<Rightarrow> string + jsval"
  JSON_stringify :: "jsval \<Rightarrow> string"
  parseInt :: "jsval \<Rightarrow> jsnum"
  parseFloat :: "jsval \<Rightarrow> jsnum"
  new_URL :: "string \<Rightarrow> string + url_obj"
  transport :: "wire_request \<Rightarrow> string + string http_reply"
  msg_read_nullish :: "jsval \<Rightarrow> string \<Rightarrow> string"
  msg_not_function :: "jsval \<Rightarrow> string \<Rightarrow> string"
  error_stack :: "exn \<Rightarrow> string"

text \<open>\<open>const MCP_SERVER_URL = process.env.MCP_SERVER_URL || ''\<close>\<close>

definition MCP_SERVER_URL :: "runtime \<Rightarrow> string" where
  "MCP_SERVER_URL rt = (case env_MCP_SERVER_URL rt of None \<Rightarrow> [] | Some u \<Rightarrow> u)"

definition timestamp :: "runtime \<Rightarrow> jsval" where
  "timestamp rt = JStr (toISOString_now rt)"

text \<open>A property read that throws on \<open>undefined\<close> and \<open>null\<close>.\<close>

definition js_read :: "runtime \<Rightarrow> jsval \<Rightarrow> string \<Rightarrow> exn + jsval" where
  "js_read rt v k =
     (case js_get v k of
        None \<Rightarrow> Inl (Exn TypeErrorK (msg_read_nullish rt v k))
      | Some x \<Rightarrow> Inr x)"

section \<open>The HTTP helper (mcp_bridge.js, makeHttpRequest)\<close>

record options =
  opt_method :: "string option"
  opt_headers :: "(string \<times> string) list"
  opt_body :: jsval

text \<open>The loop over the lines of an event-stream body: the first \<open>data: \<close> line wins.\<close>

fun scan_lines :: "string list \<Rightarrow> string" where
  "scan_lines [] = []"
| "scan_lines (line # lines) =
     (if startsWith line ''data: '' then drop 6 line else scan_lines lines)"

text \<open>The \<open>end\<close> callback of the response: it always resolves.\<close>

definition on_end :: "runtime \<Rightarrow> string http_reply \<Rightarrow> jsval http_reply" where
  "on_end rt res =
     (let data = body res;
          raw = \<lparr>statusCode = statusCode res, body = JStr data, headers = headers res\<rparr>;
          contentType = (case map_of (headers res) ''content-type'' of None \<Rightarrow> [] | Some c \<Rightarrow> c);
          jsonData = (if js_includes contentType ''text/event-stream''
                      then scan_lines (split_nl (trim data)) else [])
      in if js_includes contentType ''text/event-stream'' \<and> jsonData \<noteq> [] then
           (case JSON_parse rt jsonData of
              Inl e \<Rightarrow> raw
            | Inr parsed \<Rightarrow> raw\<lparr>body := parsed\<rparr>)
         else
           (case JSON_parse rt data of
              Inl e \<Rightarrow> raw
            | Inr parsed \<Rightarrow> raw\<lparr>body := parsed\<rparr>))"

definition default_headers :: "(string \<times> string) list" where
  "default_headers =
     [(''Content-Type'', ''application/json''),
      (''Accept'', ''application/json, text/event-stream''),
      (''User-Agent'', ''FiscAI-Lambda-Bridge'')]"

definition reqOptions :: "url_obj \<Rightarrow> options \<Rightarrow> runtime \<Rightarrow> wire_request" where
  "reqOptions urlObj opts rt =
     \<lparr>w_secure = (protocol urlObj = ''https:''),
      w_hostname = hostname urlObj,
      w_port = port urlObj,
      w_path = pathname urlObj @ search urlObj,
      w_method = (case opt_method opts of None \<Rightarrow> ''GET'' | Some m \<Rightarrow> if m = [] then ''GET'' else m),
      w_headers = obj_spread default_headers (opt_headers opts),
      w_payload = (if truthy (opt_body opts)
                   then Some (case opt_body opts of JStr s \<Rightarrow> s | b \<Rightarrow> JSON_stringify rt b)
                   else None)\<rparr>"

text \<open>
  The promise of \<open>makeHttpRequest\<close>: the requests put on the wire, and the rejection or
  the resolved response. A URL that does not parse rejects before anything is sent.
\<close>

definition makeHttpRequest ::
  "runtime \<Rightarrow> string \<Rightarrow> options \<Rightarrow> wire_request list \<times> (exn + jsval http_reply)" where
  "makeHttpRequest rt url opts =
     (case new_URL rt url of
        Inl m \<Rightarrow> ([], Inl (Exn TypeErrorK m))
      | Inr urlObj \<Rightarrow>
          (let req = reqOptions urlObj opts rt in
           case transport rt req of
             Inl m \<Rightarrow> ([req], Inl (Exn ErrorK m))
           | Inr res \<Rightarrow> ([req], Inr (on_end rt res))))"

section \<open>Calling a tool (mcp_bridge.js, callMcpTool and callMcpAlternative)\<close>

definition mcpRequest :: "runtime \<Rightarrow> string \<Rightarrow> jsval \<Rightarrow> jsval" where
  "mcpRequest rt toolName toolArgs =
     JObj [(''jsonrpc'', JStr ''2.0''),
           (''id'', JStr (''call-'' @ dec_str (Date_now rt))),
           (''method'', JStr ''tools/call''),
           (''params'', JObj [(''name'', JStr toolName), (''arguments'', toolArgs)])]"

text \<open>The options object of the JSON-RPC call, and that of the alternative call.\<close>

definition mcp_options :: "runtime \<Rightarrow> string \<Rightarrow> jsval \<Rightarrow> options" where
  "mcp_options rt toolName toolArgs =
     \<lparr>opt_method = Some ''POST'',
      opt_headers = [(''Accept'', ''application/json, text/event-stream''),
                     (''Content-Type'', ''application/json'')],
      opt_body = mcpRequest rt toolName toolArgs\<rparr>"

definition alt_options :: "jsval \<Rightarrow> options" where
  "alt_options toolArgs =
     \<lparr>opt_method = Some ''POST'',
      opt_headers = [(''Accept'', ''application/json''), (''Content-Type'', ''application/json'')],
      opt_body = toolArgs\<rparr>"

definition callMcpAlternative ::
  "runtime \<Rightarrow> string \<Rightarrow> jsval \<Rightarrow> wire_request list \<times> (exn + jsval)" where
  "callMcpAlternative rt toolName toolArgs =
     (let restUrl = MCP_SERVER_URL rt @ ''/tools/'' @ toolName @ ''/call'' in
      case makeHttpRequest rt restUrl (alt_options toolArgs) of
        (sent, Inl e) \<Rightarrow> (sent, Inl e)
      | (sent, Inr response) \<Rightarrow>
          if statusCode response = 200 then (sent, Inr (body response))
          else (sent, Inl (Exn ErrorK
                  (''Error en m'' @ [CHR 0xE9] @ ''todo alternativo: '' @ JSON_stringify rt (body response)))))"

text \<open>The \<open>catch\<close> of \<open>callMcpTool\<close>: every exception is rethrown as a new Error.\<close>

definition rethrow :: "exn \<Rightarrow> exn" where
  "rethrow e = Exn ErrorK (''Error conectando con MCP: '' @ message e)"

definition callMcpTool ::
  "runtime \<Rightarrow> string \<Rightarrow> jsval \<Rightarrow> wire_request list \<times> (exn + jsval)" where
  "callMcpTool rt toolName toolArgs =
     (case makeHttpRequest rt (MCP_SERVER_URL rt @ ''/mcp'') (mcp_options rt toolName toolArgs) of
        (sent, Inl e) \<Rightarrow> (sent, Inl (rethrow e))
      | (sent, Inr response) \<Rightarrow>
          if statusCode response = 200 then
            (case js_read rt (body response) ''result'' of
               Inl e \<Rightarrow> (sent, Inl (rethrow e))
             | Inr r \<Rightarrow> if truthy r then (sent, Inr r) else (sent, Inr (body response)))
          else
            (case js_read rt (body response) ''error'' of
               Inl e \<Rightarrow> (sent, Inl (rethrow e))
             | Inr err \<Rightarrow>
                 if truthy err \<and> js_get err ''code'' = Some (JNum (Num (- 32600))) then
                   (case callMcpAlternative rt toolName toolArgs of
                      (sent', Inl e) \<Rightarrow> (sent @ sent', Inl (rethrow e))
                    | (sent', Inr v) \<Rightarrow> (sent @ sent', Inr v))
                 else (sent, Inl (rethrow (Exn ErrorK
                         (''Error MCP: '' @ JSON_stringify rt (body response)))))))"

section \<open>The tool handlers (mcp_bridge.js)\<close>

text \<open>
  A handler returns the requests it put on the wire and either the exception that left
  it or its \<open>{statusCode, body}\<close> result.
\<close>

type_synonym 'a outcome = "wire_request list \<times> (exn + 'a)"

definition strs :: "string list \<Rightarrow> jsval" where
  "strs xs = JArr (map JStr xs)"

text \<open>
  The guard \<open>!v || !v.trim()\<close>: \<open>Inr None\<close> when it holds (the parameter is falsy or
  blank), \<open>Inr (Some s)\<close> when the string \<open>s\<close> passes. A truthy value that is no
  string has no \<open>trim\<close> method, and the call throws a TypeError.
\<close>

definition required_string :: "runtime \<Rightarrow> jsval \<Rightarrow> exn + string option" where
  "required_string rt v =
     (if \<not> truthy v then Inr None
      else (case v of
              JStr s \<Rightarrow> if trim s = [] then Inr None else Inr (Some s)
            | _ \<Rightarrow> Inl (Exn TypeErrorK (msg_not_function rt v ''trim''))))"

definition bad_request :: "(string \<times> jsval) list \<Rightarrow> jsval reply outcome" where
  "bad_request kvs = ([], Inr \<lparr>statusCode = 400, body = JObj kvs\<rparr>)"

text \<open>
  The \<open>try\<close> block every handler ends with: the tool call, the 200 result built around
  its payload, and the \<open>catch\<close> that turns any exception into a 500 result.
\<close>

definition try_call ::
  "runtime \<Rightarrow> string \<Rightarrow> jsval \<Rightarrow> (string \<times> jsval) list \<Rightarrow> (string \<times> jsval) list
     \<Rightarrow> jsval reply outcome" where
  "try_call rt toolName toolArgs metadata hint =
     (case callMcpTool rt toolName toolArgs of
        (sent, Inr result) \<Rightarrow>
          (sent, Inr \<lparr>statusCode = 200,
                      body = JObj ([(''success'', JBool True),
                                    (''data'', result),
                                    (''source'', JStr ''mcp_server''),
                                    (''timestamp'', timestamp rt)] @ metadata)\<rparr>)
      | (sent, Inl err) \<Rightarrow>
          (sent, Inr \<lparr>statusCode = 500,
                      body = JObj ([(''error'', JStr (message err)),
                                    (''timestamp'', timestamp rt)] @ hint)\<rparr>))"

definition handleMcpFiscalAdvice :: "runtime \<Rightarrow> bag \<Rightarrow> jsval reply outcome" where
  "handleMcpFiscalAdvice rt params =
     (let actividad = param params ''actividad'';
          ingresos_anuales = param params ''ingresos_anuales'';
          estado = param params ''estado'';
          regimen_actual = param params ''regimen_actual'';
          tiene_rfc = param params ''tiene_rfc'';
          contexto_adicional = param params ''contexto_adicional''
      in if \<not> truthy actividad then
           bad_request
             [(''error'', JStr (''Falta el par'' @ [CHR 0xE1] @ ''metro \"actividad\"'')),
              (''required'', strs [''actividad'']),
              (''optional'', strs [''ingresos_anuales'', ''estado'', ''regimen_actual'',
                                   ''tiene_rfc'', ''contexto_adicional''])]
         else
           try_call rt ''get_fiscal_advice''
             (JObj [(''request'',
                     JObj [(''actividad'', actividad),
                           (''ingresos_anuales'', ingresos_anuales),
                           (''estado'', estado),
                           (''regimen_actual'', regimen_actual),
                           (''tiene_rfc'', tiene_rfc),
                           (''contexto_adicional'', contexto_adicional)])])
             [] [])"

definition handleMcpGenerateEmbedding :: "runtime \<Rightarrow> bag \<Rightarrow> jsval reply outcome" where
  "handleMcpGenerateEmbedding rt params =
     (let text = param params ''text'' in
      case required_string rt text of
        Inl e \<Rightarrow> ([], Inl e)
      | Inr None \<Rightarrow>
          bad_request
            [(''error'', JStr (''Falta el par'' @ [CHR 0xE1] @ ''metro \"text\" o est'' @ [CHR 0xE1] @ '' vac'' @ [CHR 0xED] @ ''o'')),
             (''required'', strs [''text'']),
             (''hint'', JStr (''El texto no puede estar vac'' @ [CHR 0xED] @ ''o para generar el embedding''))]
      | Inr (Some s) \<Rightarrow>
          try_call rt ''generate_embedding''
            (JObj [(''text'', text)])
            [(''metadata'', JObj [(''text_length'', js_length s),
                                  (''text_preview'', JStr (preview 100 s))])]
            [(''hint'', JStr (''Verifica que el servidor MCP est'' @ [CHR 0xE9] @ '' funcionando y que la API de Gemini est'' @ [CHR 0xE9] @ '' configurada correctamente''))])"

definition handleMcpStoreDocument :: "runtime \<Rightarrow> bag \<Rightarrow> jsval reply outcome" where
  "handleMcpStoreDocument rt params =
     (let text = param params ''text'';
          classroom_id = param params ''classroom_id''
      in case required_string rt text of
        Inl e \<Rightarrow> ([], Inl e)
      | Inr None \<Rightarrow>
          bad_request
            [(''error'', JStr (''Falta el par'' @ [CHR 0xE1] @ ''metro \"text\" o est'' @ [CHR 0xE1] @ '' vac'' @ [CHR 0xED] @ ''o'')),
             (''required'', strs [''text'']),
             (''optional'', strs [''classroom_id'']),
             (''hint'', JStr (''El texto del documento no puede estar vac'' @ [CHR 0xED] @ ''o''))]
      | Inr (Some s) \<Rightarrow>
          try_call rt ''store_document''
            (JObj [(''text'', text),
                   (''classroom_id'', js_or classroom_id JNull)])
            [(''metadata'', JObj [(''text_length'', js_length s),
                                  (''classroom_id'', js_or classroom_id JNull),
                                  (''text_preview'', JStr (preview 100 s))])]
            [(''hint'', JStr (''Verifica que el servidor MCP est'' @ [CHR 0xE9] @ '' funcionando y que Supabase est'' @ [CHR 0xE9] @ '' configurado correctamente''))])"

definition handleMcpSearchSimilarDocuments :: "runtime \<Rightarrow> bag \<Rightarrow> jsval reply outcome" where
  "handleMcpSearchSimilarDocuments rt params =
     (let query_text = param params ''query_text'';
          classroom_id = param params ''classroom_id'';
          limit = param_default params ''limit'' (JNum (Num 5));
          threshold = param params ''threshold''
      in case required_string rt query_text of
        Inl e \<Rightarrow> ([], Inl e)
      | Inr None \<Rightarrow>
          bad_request
            [(''error'', JStr (''Falta el par'' @ [CHR 0xE1] @ ''metro \"query_text\" o est'' @ [CHR 0xE1] @ '' vac'' @ [CHR 0xED] @ ''o'')),
             (''required'', strs [''query_text'']),
             (''optional'', strs [''classroom_id'', ''limit'', ''threshold'']),
             (''hint'', JStr (''El texto de consulta no puede estar vac'' @ [CHR 0xED] @ ''o''))]
      | Inr (Some s) \<Rightarrow>
          (let parsedLimit = parseInt rt limit in
           if isNaN parsedLimit \<or> js_lt parsedLimit (Num 1) \<or> js_lt (Num 50) parsedLimit then
             bad_request
               [(''error'', JStr (''El par'' @ [CHR 0xE1] @ ''metro \"limit\" debe ser un n'' @ [CHR 0xFA] @ ''mero entre 1 y 50'')),
                (''received'', limit),
                (''hint'', JStr (''Usa un valor num'' @ [CHR 0xE9] @ ''rico v'' @ [CHR 0xE1] @ ''lido para limitar los resultados''))]
           else if threshold \<noteq> JUndefined \<and>
                   (let parsedThreshold = parseFloat rt threshold in
                    isNaN parsedThreshold \<or> js_lt parsedThreshold (Num 0) \<or> js_lt (Num 1) parsedThreshold) then
             bad_request
               [(''error'', JStr (''El par'' @ [CHR 0xE1] @ ''metro \"threshold\" debe ser un n'' @ [CHR 0xFA] @ ''mero entre 0 y 1'')),
                (''received'', threshold),
                (''hint'', JStr (''El threshold representa la similitud m'' @ [CHR 0xED] @ ''nima (0=cualquier similitud, 1=id'' @ [CHR 0xE9] @ ''ntico)''))]
           else
             try_call rt ''search_similar_documents''
               (JObj ([(''query_text'', query_text),
                       (''limit'', JNum parsedLimit)]
                      @ (if truthy classroom_id then [(''classroom_id'', classroom_id)] else [])
                      @ (if threshold \<noteq> JUndefined
                         then [(''threshold'', JNum (parseFloat rt threshold))] else [])))
               [(''metadata'', JObj [(''query_length'', js_length s),
                                     (''query_preview'', JStr (preview 100 s)),
                                     (''classroom_id'', js_or classroom_id JNull),
                                     (''limit_used'', JNum parsedLimit),
                                     (''threshold_used'', js_or threshold (JStr ''default''))])]
               [(''hint'', JStr (''Verifica que el servidor MCP est'' @ [CHR 0xE9] @ '' funcionando y que las funciones de Supabase est'' @ [CHR 0xE9] @ ''n configuradas''))]))"

definition handleMcpStoreDocumentChunk :: "runtime \<Rightarrow> bag \<Rightarrow> jsval reply outcome" where
  "handleMcpStoreDocumentChunk rt params =
     (let classroom_document_id = param params ''classroom_document_id'';
          chunk_index = param params ''chunk_index'';
          content = param params ''content'';
          token_count = param params ''token_count''
      in case required_string rt classroom_document_id of
        Inl e \<Rightarrow> ([], Inl e)
      | Inr None \<Rightarrow>
          bad_request
            [(''error'', JStr (''Falta el par'' @ [CHR 0xE1] @ ''metro \"classroom_document_id\"'')),
             (''required'', strs [''classroom_document_id'', ''chunk_index'', ''content'']),
             (''optional'', strs [''token_count'']),
             (''hint'', JStr ''El ID del documento es obligatorio'')]
      | Inr (Some d) \<Rightarrow>
          if chunk_index = JUndefined \<or> chunk_index = JNull then
            bad_request
              [(''error'', JStr (''Falta el par'' @ [CHR 0xE1] @ ''metro \"chunk_index\"'')),
               (''required'', strs [''classroom_document_id'', ''chunk_index'', ''content'']),
               (''hint'', JStr (''El '' @ [CHR 0xED] @ ''ndice del chunk es obligatorio (0, 1, 2, ...)''))]
          else
            (case required_string rt content of
               Inl e \<Rightarrow> ([], Inl e)
             | Inr None \<Rightarrow>
                 bad_request
                   [(''error'', JStr (''Falta el par'' @ [CHR 0xE1] @ ''metro \"content\" o est'' @ [CHR 0xE1] @ '' vac'' @ [CHR 0xED] @ ''o'')),
                    (''required'', strs [''classroom_document_id'', ''chunk_index'', ''content'']),
                    (''hint'', JStr (''El contenido del chunk no puede estar vac'' @ [CHR 0xED] @ ''o''))]
             | Inr (Some c) \<Rightarrow>
                 try_call rt ''store_document_chunk''
                   (JObj [(''classroom_document_id'', classroom_document_id),
                          (''chunk_index'', JNum (parseInt rt chunk_index)),
                          (''content'', content),
                          (''token_count'', if truthy token_count
                                            then JNum (parseInt rt token_count) else JUndefined)])
                   [(''metadata'', JObj [(''classroom_document_id'', classroom_document_id),
                                         (''chunk_index'', JNum (parseInt rt chunk_index)),
                                         (''content_length'', js_length c),
                                         (''token_count'', js_or token_count (JStr ''auto''))])]
                   [(''hint'', JStr (''Verifica que el documento exista y que Supabase est'' @ [CHR 0xE9] @ '' configurado correctamente''))]))"

definition handleMcpSearchSimilarChunks :: "runtime \<Rightarrow> bag \<Rightarrow> jsval reply outcome" where
  "handleMcpSearchSimilarChunks rt params =
     (let query_text = param params ''query_text'';
          classroom_id = param params ''classroom_id'';
          limit = param_default params ''limit'' (JNum (Num 5));
          threshold = param params ''threshold''
      in case required_string rt query_text of
        Inl e \<Rightarrow> ([], Inl e)
      | Inr None \<Rightarrow>
          bad_request
            [(''error'', JStr (''Falta el par'' @ [CHR 0xE1] @ ''metro \"query_text\" o est'' @ [CHR 0xE1] @ '' vac'' @ [CHR 0xED] @ ''o'')),
             (''required'', strs [''query_text'', ''classroom_id'']),
             (''optional'', strs [''limit'', ''threshold'']),
             (''hint'', JStr (''El texto de consulta no puede estar vac'' @ [CHR 0xED] @ ''o''))]
      | Inr (Some q) \<Rightarrow>
          (case required_string rt classroom_id of
             Inl e \<Rightarrow> ([], Inl e)
           | Inr None \<Rightarrow>
               bad_request
                 [(''error'', JStr (''Falta el par'' @ [CHR 0xE1] @ ''metro \"classroom_id\"'')),
                  (''required'', strs [''query_text'', ''classroom_id'']),
                  (''optional'', strs [''limit'', ''threshold'']),
                  (''hint'', JStr (''El ID del classroom es OBLIGATORIO para esta b'' @ [CHR 0xFA] @ ''squeda''))]
           | Inr (Some c) \<Rightarrow>
               try_call rt ''search_similar_chunks''
                 (JObj [(''query_text'', query_text),
                        (''classroom_id'', classroom_id),
                        (''limit'', JNum (parseInt rt limit)),
                        (''threshold'', if truthy threshold
                                        then JNum (parseFloat rt threshold) else JUndefined)])
                 [(''metadata'', JObj [(''query_text'', query_text),
                                       (''classroom_id'', classroom_id),
                                       (''limit'', JNum (parseInt rt limit)),
                                       (''threshold'', js_or threshold (JStr ''default''))])]
                 [(''hint'', JStr (''Verifica que el classroom exista y que la funci'' @ [CHR 0xF3] @ ''n RPC match_classroom_chunks est'' @ [CHR 0xE9] @ '' creada''))]))"

definition handleMcpChatWithClassroom :: "runtime \<Rightarrow> bag \<Rightarrow> jsval reply outcome" where
  "handleMcpChatWithClassroom rt params =
     (let msg = param params ''message'';
          classroom_id = param params ''classroom_id'';
          user_id = param params ''user_id'';
          session_id = param params ''session_id''
      in case required_string rt msg of
        Inl e \<Rightarrow> ([], Inl e)
      | Inr None \<Rightarrow>
          bad_request
            [(''error'', JStr (''Falta el par'' @ [CHR 0xE1] @ ''metro \"message\" o est'' @ [CHR 0xE1] @ '' vac'' @ [CHR 0xED] @ ''o'')),
             (''required'', strs [''message'', ''classroom_id'']),
             (''optional'', strs [''user_id'', ''session_id'']),
             (''hint'', JStr (''El mensaje del usuario no puede estar vac'' @ [CHR 0xED] @ ''o''))]
      | Inr (Some m) \<Rightarrow>
          (case required_string rt classroom_id of
             Inl e \<Rightarrow> ([], Inl e)
           | Inr None \<Rightarrow>
               bad_request
                 [(''error'', JStr (''Falta el par'' @ [CHR 0xE1] @ ''metro \"classroom_id\"'')),
                  (''required'', strs [''message'', ''classroom_id'']),
                  (''optional'', strs [''user_id'', ''session_id'']),
                  (''hint'', JStr ''El ID del classroom es obligatorio'')]
           | Inr (Some c) \<Rightarrow>
               try_call rt ''chat_with_classroom_assistant''
                 (JObj [(''request'',
                         JObj [(''message'', msg),
                               (''classroom_id'', classroom_id),
                               (''user_id'', js_or user_id JNull),
                               (''session_id'', js_or session_id JNull)])])
                 [(''metadata'', JObj [(''message_length'', js_length m),
                                       (''classroom_id'', classroom_id),
                                       (''user_id'', js_or user_id (JStr ''anonymous'')),
                                       (''session_id'', js_or session_id (JStr ''none''))])]
                 [(''hint'', JStr ''Verifica que el classroom exista y tenga documentos cargados'')]))"

definition handleMcpGetClassroomInfo :: "runtime \<Rightarrow> bag \<Rightarrow> jsval reply outcome" where
  "handleMcpGetClassroomInfo rt params =
     (let classroom_id = param params ''classroom_id'' in
      case required_string rt classroom_id of
        Inl e \<Rightarrow> ([], Inl e)
      | Inr None \<Rightarrow>
          bad_request
            [(''error'', JStr (''Falta el par'' @ [CHR 0xE1] @ ''metro \"classroom_id\"'')),
             (''required'', strs [''classroom_id'']),
             (''hint'', JStr ''El ID del classroom es obligatorio'')]
      | Inr (Some c) \<Rightarrow>
          try_call rt ''get_classroom_info''
            (JObj [(''classroom_id'', classroom_id)])
            []
            [(''hint'', JStr ''Verifica que el classroom exista'')])"

definition handleMcpCreateEmbedding :: "runtime \<Rightarrow> bag \<Rightarrow> jsval reply outcome" where
  "handleMcpCreateEmbedding rt params =
     (let text = param params ''text'';
          classroom_id = param params ''classroom_id''
      in case required_string rt text of
        Inl e \<Rightarrow> ([], Inl e)
      | Inr None \<Rightarrow>
          bad_request
            [(''error'', JStr (''Falta el par'' @ [CHR 0xE1] @ ''metro \"text\" o est'' @ [CHR 0xE1] @ '' vac'' @ [CHR 0xED] @ ''o'')),
             (''required'', strs [''text'', ''classroom_id'']),
             (''hint'', JStr (''El texto no puede estar vac'' @ [CHR 0xED] @ ''o''))]
      | Inr (Some s) \<Rightarrow>
          (case required_string rt classroom_id of
             Inl e \<Rightarrow> ([], Inl e)
           | Inr None \<Rightarrow>
               bad_request
                 [(''error'', JStr (''Falta el par'' @ [CHR 0xE1] @ ''metro \"classroom_id\"'')),
                  (''required'', strs [''text'', ''classroom_id'']),
                  (''hint'', JStr ''El ID del classroom es obligatorio'')]
           | Inr (Some c) \<Rightarrow>
               try_call rt ''create_embedding''
                 (JObj [(''text'', text),
                        (''classroom_id'', classroom_id)])
                 [(''metadata'', JObj [(''text_length'', js_length s),
                                       (''classroom_id'', classroom_id)])]
                 [(''hint'', JStr (''Verifica la configuraci'' @ [CHR 0xF3] @ ''n de Gemini y Supabase''))]))"

definition handleMcpProfessorAssistant :: "runtime \<Rightarrow> bag \<Rightarrow> jsval reply outcome" where
  "handleMcpProfessorAssistant rt params =
     (let question = param params ''question'';
          classroom_id = param params ''classroom_id''
      in case required_string rt question of
        Inl e \<Rightarrow> ([], Inl e)
      | Inr None \<Rightarrow>
          bad_request
            [(''error'', JStr (''Falta el par'' @ [CHR 0xE1] @ ''metro \"question\" o est'' @ [CHR 0xE1] @ '' vac'' @ [CHR 0xED] @ ''o'')),
             (''required'', strs [''question'', ''classroom_id'']),
             (''hint'', JStr (''La pregunta no puede estar vac'' @ [CHR 0xED] @ ''a''))]
      | Inr (Some q) \<Rightarrow>
          (case required_string rt classroom_id of
             Inl e \<Rightarrow> ([], Inl e)
           | Inr None \<Rightarrow>
               bad_request
                 [(''error'', JStr (''Falta el par'' @ [CHR 0xE1] @ ''metro \"classroom_id\"'')),
                  (''required'', strs [''question'', ''classroom_id'']),
                  (''hint'', JStr ''El ID del classroom es obligatorio'')]
           | Inr (Some c) \<Rightarrow>
               try_call rt ''professor_assistant''
                 (JObj [(''question'', question),
                        (''classroom_id'', classroom_id)])
                 [(''metadata'', JObj [(''question_length'', js_length q),
                                       (''classroom_id'', classroom_id)])]
                 [(''hint'', JStr ''Verifica que el classroom tenga documentos cargados'')]))"

definition handleMcpGenerateResources :: "runtime \<Rightarrow> bag \<Rightarrow> jsval reply outcome" where
  "handleMcpGenerateResources rt params =
     (let classroom_id = param params ''classroom_id'';
          resource_type = param params ''resource_type'';
          user_id = param params ''user_id'';
          topic = param params ''topic'';
          source_document_ids = param params ''source_document_ids''
      in case required_string rt classroom_id of
        Inl e \<Rightarrow> ([], Inl e)
      | Inr None \<Rightarrow>
          bad_request
            [(''error'', JStr (''Falta el par'' @ [CHR 0xE1] @ ''metro \"classroom_id\"'')),
             (''required'', strs [''classroom_id'', ''resource_type'', ''user_id'']),
             (''optional'', strs [''topic'', ''source_document_ids'']),
             (''hint'', JStr ''El ID del classroom es obligatorio'')]
      | Inr (Some c) \<Rightarrow>
          (case required_string rt resource_type of
             Inl e \<Rightarrow> ([], Inl e)
           | Inr None \<Rightarrow>
               bad_request
                 [(''error'', JStr (''Falta el par'' @ [CHR 0xE1] @ ''metro \"resource_type\"'')),
                  (''required'', strs [''classroom_id'', ''resource_type'', ''user_id'']),
                  (''optional'', strs [''topic'', ''source_document_ids'']),
                  (''hint'', JStr ''El tipo de recurso es obligatorio: \"pdf\" o \"ppt\"'')]
           | Inr (Some r) \<Rightarrow>
               if toLowerCase r \<notin> set [''pdf'', ''ppt''] then
                 bad_request
                   [(''error'', JStr (''Tipo de recurso inv'' @ [CHR 0xE1] @ ''lido'')),
                    (''received'', resource_type),
                    (''allowed'', strs [''pdf'', ''ppt'']),
                    (''hint'', JStr ''El tipo de recurso debe ser \"pdf\" o \"ppt\"'')]
               else
                 (case required_string rt user_id of
                    Inl e \<Rightarrow> ([], Inl e)
                  | Inr None \<Rightarrow>
                      bad_request
                        [(''error'', JStr (''Falta el par'' @ [CHR 0xE1] @ ''metro \"user_id\"'')),
                         (''required'', strs [''classroom_id'', ''resource_type'', ''user_id'']),
                         (''optional'', strs [''topic'', ''source_document_ids'']),
                         (''hint'', JStr ''El ID del usuario es obligatorio'')]
                  | Inr (Some u) \<Rightarrow>
                      try_call rt ''generate_resources''
                        (JObj ([(''classroom_id'', classroom_id),
                                (''resource_type'', JStr (toLowerCase r)),
                                (''user_id'', user_id)]
                               @ (if truthy topic then [(''topic'', topic)] else [])
                               @ (case source_document_ids of
                                    JArr ids \<Rightarrow> [(''source_document_ids'', source_document_ids)]
                                  | _ \<Rightarrow> [])))
                        [(''metadata'', JObj [(''classroom_id'', classroom_id),
                                              (''resource_type'', JStr (toLowerCase r)),
                                              (''user_id'', user_id),
                                              (''topic'', js_or topic JNull)])]
                        [(''hint'', JStr (''Verifica que el classroom tenga documentos cargados y que las dependencias de generaci'' @ [CHR 0xF3] @ ''n est'' @ [CHR 0xE9] @ ''n instaladas''))])))"

definition handleMcpAnalyzeUserContext :: "runtime \<Rightarrow> bag \<Rightarrow> jsval reply outcome" where
  "handleMcpAnalyzeUserContext rt params =
     (let user_id = param params ''user_id'';
          session_id = param params ''session_id''
      in case required_string rt user_id of
        Inl e \<Rightarrow> ([], Inl e)
      | Inr None \<Rightarrow>
          bad_request
            [(''error'', JStr (''Falta el par'' @ [CHR 0xE1] @ ''metro \"user_id\"'')),
             (''required'', strs [''user_id'', ''session_id'']),
             (''hint'', JStr ''El ID del usuario es obligatorio'')]
      | Inr (Some u) \<Rightarrow>
          (case required_string rt session_id of
             Inl e \<Rightarrow> ([], Inl e)
           | Inr None \<Rightarrow>
               bad_request
                 [(''error'', JStr (''Falta el par'' @ [CHR 0xE1] @ ''metro \"session_id\"'')),
                  (''required'', strs [''user_id'', ''session_id'']),
                  (''hint'', JStr (''El ID de la sesi'' @ [CHR 0xF3] @ ''n es obligatorio''))]
           | Inr (Some x) \<Rightarrow>
               try_call rt ''analyze_and_update_user_context''
                 (JObj [(''user_id'', user_id),
                        (''session_id'', session_id)])
                 [(''metadata'', JObj [(''user_id'', user_id),
                                       (''session_id'', session_id)])]
                 [(''hint'', JStr (''Verifica que el usuario y la sesi'' @ [CHR 0xF3] @ ''n existan''))]))"

text \<open>The twelve operations that \<open>module.exports\<close> makes available, by name.\<close>

datatype operation =
    FiscalAdvice
  | GenerateEmbedding
  | StoreDocument
  | SearchSimilarDocuments
  | StoreDocumentChunk
  | SearchSimilarChunks
  | ChatWithClassroom
  | GetClassroomInfo
  | CreateEmbedding
  | ProfessorAssistant
  | GenerateResources
  | AnalyzeUserContext

fun mcpBridge :: "operation \<Rightarrow> runtime \<Rightarrow> bag \<Rightarrow> jsval reply outcome" where
  "mcpBridge FiscalAdvice = handleMcpFiscalAdvice"
| "mcpBridge GenerateEmbedding = handleMcpGenerateEmbedding"
| "mcpBridge StoreDocument = handleMcpStoreDocument"
| "mcpBridge SearchSimilarDocuments = handleMcpSearchSimilarDocuments"
| "mcpBridge StoreDocumentChunk = handleMcpStoreDocumentChunk"
| "mcpBridge SearchSimilarChunks = handleMcpSearchSimilarChunks"
| "mcpBridge ChatWithClassroom = handleMcpChatWithClassroom"
| "mcpBridge GetClassroomInfo = handleMcpGetClassroomInfo"
| "mcpBridge CreateEmbedding = handleMcpCreateEmbedding"
| "mcpBridge ProfessorAssistant = handleMcpProfessorAssistant"
| "mcpBridge GenerateResources = handleMcpGenerateResources"
| "mcpBridge AnalyzeUserContext = handleMcpAnalyzeUserContext"

section \<open>The Lambda entry point (index.js)\<close>

text \<open>
  The own enumerable properties an object spread \<open>{...v}\<close> copies: those of an object,
  the indexed characters of a string, the indexed elements of an array, and nothing of
  any other value.
\<close>

definition own_props :: "jsval \<Rightarrow> bag" where
  "own_props v =
     (case v of
        JObj kvs \<Rightarrow> kvs
      | JStr s \<Rightarrow> zip (map dec_str [0..<length s]) (map (\<lambda>c. JStr [c]) s)
      | JArr xs \<Rightarrow> zip (map dec_str [0..<length xs]) xs
      | _ \<Rightarrow> [])"

definition extractParams :: "runtime \<Rightarrow> jsval \<Rightarrow> exn + bag" where
  "extractParams rt event =
     (case js_read rt event ''queryStringParameters'' of
        Inl e \<Rightarrow> Inl e
      | Inr qsp \<Rightarrow>
     (case js_read rt event ''body'' of
        Inl e \<Rightarrow> Inl e
      | Inr b \<Rightarrow>
     (case js_read rt event ''httpMethod'' of
        Inl e \<Rightarrow> Inl e
      | Inr httpMethod \<Rightarrow>
          (let params1 = (if truthy qsp then obj_spread [] (own_props qsp) else []) in
           case (if truthy b then
                   (case b of
                      JStr s \<Rightarrow>
                        (case JSON_parse rt s of
                           Inl m \<Rightarrow> Inl (Exn SyntaxErrorK m)
                         | Inr parsed \<Rightarrow> Inr (obj_spread params1 (own_props parsed)))
                    | _ \<Rightarrow> Inr (obj_spread params1 (own_props b)))
                 else Inr params1) of
             Inl e \<Rightarrow> Inl e
           | Inr params2 \<Rightarrow>
               if \<not> truthy qsp \<and> \<not> truthy b \<and> \<not> truthy httpMethod
               then Inr (obj_spread [] (own_props event))
               else Inr params2))))"

definition cors_headers :: "(string \<times> string) list" where
  "cors_headers =
     [(''Content-Type'', ''application/json''),
      (''Access-Control-Allow-Origin'', ''*''),
      (''Access-Control-Allow-Methods'', ''GET, POST, OPTIONS''),
      (''Access-Control-Allow-Headers'', ''Content-Type, Authorization'')]"

definition createResponse :: "runtime \<Rightarrow> nat \<Rightarrow> jsval \<Rightarrow> string http_reply" where
  "createResponse rt code b =
     \<lparr>statusCode = code, body = JSON_stringify rt b, headers = cors_headers\<rparr>"

text \<open>The chain of \<open>path.includes\<close> tests of \<open>getEndpoint\<close>, in the source's order.\<close>

definition route :: "string \<Rightarrow> string" where
  "route path =
     (if js_includes path ''/fiscal-advice'' \<or> js_includes path ''/fiscaladvice'' then ''fiscal-advice''
      else if js_includes path ''/generate-embedding'' \<or> js_includes path ''/embedding'' then ''generate-embedding''
      else if js_includes path ''/store-document-chunk'' \<or> js_includes path ''/store-chunk'' then ''store-document-chunk''
      else if js_includes path ''/search-chunks'' \<or> js_includes path ''/chunks'' then ''search-chunks''
      else if js_includes path ''/chat-classroom'' \<or> js_includes path ''/chat-classroom'' then ''chat-classroom''
      else if js_includes path ''/classroom-info'' \<or> js_includes path ''/classroom'' then ''classroom-info''
      else if js_includes path ''/create-embedding'' then ''create-embedding''
      else if js_includes path ''/professor-assistant'' \<or> js_includes path ''/professor'' then ''professor-assistant''
      else if js_includes path ''/generate-resources'' \<or> js_includes path ''/resources'' then ''generate-resources''
      else if js_includes path ''/analyze-user-context'' \<or> js_includes path ''/analyze-context'' then ''analyze-user-context''
      else if js_includes path ''/health'' then ''health''
      else if path = ''/'' \<or> path = '''' \<or> path = ''/info'' then ''info''
      else ''unknown'')"

text \<open>
  \<open>event.path || event.rawPath || event.requestContext?.resourcePath || ''\<close>, then
  \<open>path.replace\<close>: a truthy value that is no string has no \<open>replace\<close> method.
\<close>

definition getEndpoint :: "runtime \<Rightarrow> jsval \<Rightarrow> exn + string" where
  "getEndpoint rt event =
     (case js_read rt event ''path'' of
        Inl e \<Rightarrow> Inl e
      | Inr p \<Rightarrow>
          (let path0 = js_or p (js_or (js_get_opt event ''rawPath'')
                         (js_or (js_get_opt (js_get_opt event ''requestContext'') ''resourcePath'')
                            (JStr '''')))
           in case path0 of
                JStr s \<Rightarrow> Inr (route (strip_trailing_slash s))
              | v \<Rightarrow> Inl (Exn TypeErrorK (msg_not_function rt v ''replace''))))"

text \<open>\<open>process.env.MCP_SERVER_URL || d\<close>\<close>

definition mcp_server_or :: "runtime \<Rightarrow> string \<Rightarrow> jsval" where
  "mcp_server_or rt d =
     JStr (case env_MCP_SERVER_URL rt of None \<Rightarrow> d | Some u \<Rightarrow> if u = [] then d else u)"

definition health_body :: "runtime \<Rightarrow> jsval" where
  "health_body rt =
     JObj [(''status'', JStr ''healthy''),
           (''service'', JStr ''FiscAI Lambda MCP Bridge''),
           (''version'', JStr ''2.0.0''),
           (''mcp_server'', mcp_server_or rt ''https://fiscmcp.fastmcp.app''),
           (''timestamp'', timestamp rt)]"

definition info_body :: "runtime \<Rightarrow> jsval" where
  "info_body rt =
     JObj
       [(''service'', JStr ''EstudIA Lambda - MCP Bridge''),
        (''version'', JStr ''3.0.0''),
        (''description'', JStr (''Bridge HTTP para conectar apps con servidor MCP de EstudIA (Sistema de gesti'' @ [CHR 0xF3] @ ''n educativa tipo NotebookLM)'')),
        (''mcp_server'', mcp_server_or rt ''https://estudia-mcp.fastmcp.app''),
        (''endpoints'', JObj
         [(''health'', JStr ''/health''),
          (''generateEmbedding'', JStr ''/generate-embedding''),
          (''createEmbedding'', JStr ''/create-embedding''),
          (''storeDocumentChunk'', JStr ''/store-document-chunk''),
          (''searchChunks'', JStr ''/search-chunks''),
          (''chatClassroom'', JStr ''/chat-classroom''),
          (''professorAssistant'', JStr ''/professor-assistant''),
          (''classroomInfo'', JStr ''/classroom-info''),
          (''generateResources'', JStr ''/generate-resources''),
          (''analyzeUserContext'', JStr ''/analyze-user-context''),
          (''fiscalAdvice'', JStr ''/fiscal-advice'')]),
        (''usage'', JObj
         [(''generateEmbedding'', JObj
           [(''method'', JStr ''POST''),
            (''path'', JStr ''/generate-embedding''),
            (''body'', JObj
             [(''text'', JStr ''string (required)'')])]),
          (''createEmbedding'', JObj
           [(''method'', JStr ''POST''),
            (''path'', JStr ''/create-embedding''),
            (''body'', JObj
             [(''text'', JStr ''string (required)''),
              (''classroom_id'', JStr ''string (required, UUID del classroom)'')])]),
          (''storeDocumentChunk'', JObj
           [(''method'', JStr ''POST''),
            (''path'', JStr ''/store-document-chunk''),
            (''body'', JObj
             [(''classroom_document_id'', JStr ''string (required, UUID del documento)''),
              (''chunk_index'', JStr (''number (required, '' @ [CHR 0xED] @ ''ndice del chunk: 0, 1, 2...)'')),
              (''content'', JStr ''string (required, contenido del chunk)''),
              (''token_count'', JStr (''number (optional, n'' @ [CHR 0xFA] @ ''mero de tokens)''))])]),
          (''searchChunks'', JObj
           [(''method'', JStr ''POST''),
            (''path'', JStr ''/search-chunks''),
            (''body'', JObj
             [(''query_text'', JStr ''string (required)''),
              (''classroom_id'', JStr ''string (required, UUID del classroom)''),
              (''limit'', JStr ''number (optional, default: 5)''),
              (''threshold'', JStr ''number (optional, 0-1, default: 0.6)'')])]),
          (''chatClassroom'', JObj
           [(''method'', JStr ''POST''),
            (''path'', JStr ''/chat-classroom''),
            (''body'', JObj
             [(''message'', JStr ''string (required, mensaje del usuario)''),
              (''classroom_id'', JStr ''string (required, UUID del classroom)''),
              (''user_id'', JStr ''string (optional, UUID del usuario)''),
              (''session_id'', JStr (''string (optional, ID de sesi'' @ [CHR 0xF3] @ ''n)''))])]),
          (''classroomInfo'', JObj
           [(''method'', JStr ''GET/POST''),
            (''path'', JStr ''/classroom-info''),
            (''body'', JObj
             [(''classroom_id'', JStr ''string (required, UUID del classroom)'')])]),
          (''professorAssistant'', JObj
           [(''method'', JStr ''POST''),
            (''path'', JStr ''/professor-assistant''),
            (''body'', JObj
             [(''question'', JStr ''string (required, pregunta del estudiante)''),
              (''classroom_id'', JStr ''string (required, UUID del classroom)'')])]),
          (''generateResources'', JObj
           [(''method'', JStr ''POST''),
            (''path'', JStr ''/generate-resources''),
            (''body'', JObj
             [(''classroom_id'', JStr ''string (required, UUID del classroom)''),
              (''resource_type'', JStr ''string (required, \"pdf\" o \"ppt\")''),
              (''user_id'', JStr ''string (required, UUID del usuario)''),
              (''topic'', JStr (''string (optional, tema espec'' @ [CHR 0xED] @ ''fico del recurso)'')),
              (''source_document_ids'', JStr (''array (optional, UUIDs de documentos espec'' @ [CHR 0xED] @ ''ficos)''))])]),
          (''analyzeUserContext'', JObj
           [(''method'', JStr ''POST''),
            (''path'', JStr ''/analyze-user-context''),
            (''body'', JObj
             [(''user_id'', JStr ''string (required, UUID del usuario)''),
              (''session_id'', JStr (''string (required, UUID de la sesi'' @ [CHR 0xF3] @ ''n del cub'' @ [CHR 0xED] @ ''culo)''))])]),
          (''fiscalAdvice'', JObj
           [(''method'', JStr ''POST''),
            (''path'', JStr ''/fiscal-advice''),
            (''body'', JObj
             [(''actividad'', JStr ''string (required)''),
              (''ingresos_anuales'', JStr ''number (optional)''),
              (''estado'', JStr ''string (optional)''),
              (''regimen_actual'', JStr ''string (optional)''),
              (''tiene_rfc'', JStr ''boolean (optional)''),
              (''contexto_adicional'', JStr ''string (optional)'')])])]),
        (''examples'', JObj
         [(''chatClassroom'', JStr (trim ([CHR 0x0A] @ ''            curl -X POST https://your-api-url.com/chat-classroom '' @ [CHR 0x5C, CHR 0x0A]
              @ ''              -H \"Content-Type: application/json\" '' @ [CHR 0x5C, CHR 0x0A]
              @ ''              -d '' @ [CHR 0x27] @ ''{'' @ [CHR 0x0A]
              @ ''                \"message\": \"'' @ [CHR 0xBF] @ ''Cu'' @ [CHR 0xE1] @ ''les son los conceptos clave de la clase?\",'' @ [CHR 0x0A]
              @ ''                \"classroom_id\": \"550e8400-e29b-41d4-a716-446655440000\"'' @ [CHR 0x0A]
              @ ''              }'' @ [CHR 0x27, CHR 0x0A] @ ''            ''))),
          (''professorAssistant'', JStr (trim ([CHR 0x0A] @ ''            curl -X POST https://your-api-url.com/professor-assistant '' @ [CHR 0x5C, CHR 0x0A]
              @ ''              -H \"Content-Type: application/json\" '' @ [CHR 0x5C, CHR 0x0A]
              @ ''              -d '' @ [CHR 0x27] @ ''{'' @ [CHR 0x0A]
              @ ''                \"question\": \"'' @ [CHR 0xBF] @ ''Puedes explicar el concepto de embeddings?\",'' @ [CHR 0x0A]
              @ ''                \"classroom_id\": \"550e8400-e29b-41d4-a716-446655440000\"'' @ [CHR 0x0A]
              @ ''              }'' @ [CHR 0x27, CHR 0x0A] @ ''            ''))),
          (''storeChunk'', JStr (trim ([CHR 0x0A] @ ''            curl -X POST https://your-api-url.com/store-document-chunk '' @ [CHR 0x5C, CHR 0x0A]
              @ ''              -H \"Content-Type: application/json\" '' @ [CHR 0x5C, CHR 0x0A]
              @ ''              -d '' @ [CHR 0x27] @ ''{'' @ [CHR 0x0A]
              @ ''                \"classroom_document_id\": \"doc-uuid-123\",'' @ [CHR 0x0A]
              @ ''                \"chunk_index\": 0,'' @ [CHR 0x0A]
              @ ''                \"content\": \"Los embeddings son vectores num'' @ [CHR 0xE9] @ ''ricos...\"'' @ [CHR 0x0A]
              @ ''              }'' @ [CHR 0x27, CHR 0x0A] @ ''            ''))),
          (''searchChunks'', JStr (trim ([CHR 0x0A] @ ''            curl -X POST https://your-api-url.com/search-chunks '' @ [CHR 0x5C, CHR 0x0A]
              @ ''              -H \"Content-Type: application/json\" '' @ [CHR 0x5C, CHR 0x0A]
              @ ''              -d '' @ [CHR 0x27] @ ''{'' @ [CHR 0x0A]
              @ ''                \"query_text\": \"embeddings vectores\",'' @ [CHR 0x0A]
              @ ''                \"classroom_id\": \"550e8400-e29b-41d4-a716-446655440000\",'' @ [CHR 0x0A]
              @ ''                \"limit\": 5'' @ [CHR 0x0A]
              @ ''              }'' @ [CHR 0x27, CHR 0x0A] @ ''            ''))),
          (''analyzeUserContext'', JStr (trim ([CHR 0x0A] @ ''            curl -X POST https://your-api-url.com/analyze-user-context '' @ [CHR 0x5C, CHR 0x0A]
              @ ''              -H \"Content-Type: application/json\" '' @ [CHR 0x5C, CHR 0x0A]
              @ ''              -d '' @ [CHR 0x27] @ ''{'' @ [CHR 0x0A]
              @ ''                \"user_id\": \"user-uuid-123\",'' @ [CHR 0x0A]
              @ ''                \"session_id\": \"session-uuid-456\"'' @ [CHR 0x0A]
              @ ''              }'' @ [CHR 0x27, CHR 0x0A] @ ''            '')))]),
        (''timestamp'', timestamp rt)]"

definition available_endpoints :: "string list" where
  "available_endpoints =
     [''/health'',
      ''/generate-embedding'',
      ''/create-embedding'',
      ''/store-document-chunk'',
      ''/search-chunks'',
      ''/chat-classroom'',
      ''/classroom-info'',
      ''/professor-assistant'',
      ''/generate-resources'',
      ''/analyze-user-context'',
      ''/fiscal-advice (legacy)'']"

definition not_found_body :: "runtime \<Rightarrow> jsval \<Rightarrow> string \<Rightarrow> jsval" where
  "not_found_body rt event endpoint =
     JObj [(''error'', JStr ''Endpoint no encontrado''),
           (''endpoint_requested'', JStr endpoint),
           (''path'', js_or (js_get_opt event ''path'')
                       (js_or (js_get_opt event ''rawPath'') (JStr ''N/A''))),
           (''method'', js_or (js_get_opt event ''httpMethod'')
                         (js_or (js_get_opt (js_get_opt (js_get_opt event ''requestContext'') ''http'') ''method'')
                            (JStr ''N/A''))),
           (''available_endpoints'', strs available_endpoints),
           (''tip'', JStr (''Accede a / o /info para ver la documentaci'' @ [CHR 0xF3] @ ''n completa'')),
           (''timestamp'', timestamp rt)]"

text \<open>The \<open>case\<close> labels of the \<open>switch\<close> that call into the bridge.\<close>

definition endpoint_operation :: "string \<Rightarrow> operation option" where
  "endpoint_operation endpoint =
     (if endpoint = ''fiscal-advice'' then Some FiscalAdvice
      else if endpoint = ''generate-embedding'' then Some GenerateEmbedding
      else if endpoint = ''store-document-chunk'' then Some StoreDocumentChunk
      else if endpoint = ''search-chunks'' then Some SearchSimilarChunks
      else if endpoint = ''chat-classroom'' then Some ChatWithClassroom
      else if endpoint = ''classroom-info'' then Some GetClassroomInfo
      else if endpoint = ''create-embedding'' then Some CreateEmbedding
      else if endpoint = ''professor-assistant'' then Some ProfessorAssistant
      else if endpoint = ''generate-resources'' then Some GenerateResources
      else if endpoint = ''analyze-user-context'' then Some AnalyzeUserContext
      else None)"

text \<open>
  The \<open>try\<close> block of the entry point, up to the status and body object that each
  \<open>return createResponse(...)\<close> serialises.
\<close>

definition dispatch :: "runtime \<Rightarrow> jsval \<Rightarrow> jsval reply outcome" where
  "dispatch rt event =
     (case getEndpoint rt event of
        Inl e \<Rightarrow> ([], Inl e)
      | Inr endpoint \<Rightarrow>
     (case extractParams rt event of
        Inl e \<Rightarrow> ([], Inl e)
      | Inr params \<Rightarrow>
          (case endpoint_operation endpoint of
             Some operation \<Rightarrow> mcpBridge operation rt params
           | None \<Rightarrow>
               if endpoint = ''health'' then ([], Inr \<lparr>statusCode = 200, body = health_body rt\<rparr>)
               else if endpoint = ''info'' then ([], Inr \<lparr>statusCode = 200, body = info_body rt\<rparr>)
               else ([], Inr \<lparr>statusCode = 404, body = not_found_body rt event endpoint\<rparr>))))"

definition internal_error_body :: "runtime \<Rightarrow> exn \<Rightarrow> jsval" where
  "internal_error_body rt err =
     JObj [(''error'', JStr (message err)),
           (''stack'', if env_NODE_ENV rt = Some ''development''
                       then JStr (error_stack rt err) else JUndefined),
           (''timestamp'', timestamp rt)]"

definition is_options :: "jsval \<Rightarrow> jsval \<Rightarrow> bool" where
  "is_options httpMethod event =
     (httpMethod = JStr ''OPTIONS'' \<or>
      js_get_opt (js_get_opt (js_get_opt event ''requestContext'') ''http'') ''method'' = JStr ''OPTIONS'')"

definition handler :: "runtime \<Rightarrow> jsval \<Rightarrow> string http_reply outcome" where
  "handler rt event =
     (case js_read rt event ''httpMethod'' of
        Inl e \<Rightarrow> ([], Inl e)
      | Inr httpMethod \<Rightarrow>
          if is_options httpMethod event then
            ([], Inr (createResponse rt 200 (JObj [(''message'', JStr ''OK'')])))
          else
            (case dispatch rt event of
               (sent, Inr result) \<Rightarrow>
                 (sent, Inr (createResponse rt (statusCode result) (body result)))
             | (sent, Inl err) \<Rightarrow>
                 (sent, Inr (createResponse rt 500 (internal_error_body rt err)))))"

section \<open>A reference runtime for the closed examples\<close>

text \<open>
  The theorems below hold for every runtime. The closed examples need one concrete
  runtime to evaluate in: its URL parser reads \<open>http(s)://host/path\<close>, its
  \<open>JSON.parse\<close> knows the handful of texts the examples use and rejects every other
  text, its serialiser prints numbers in decimal notation, and its network is the
  argument \<open>net\<close>, a mocked backend.
\<close>

definition ref_new_URL :: "string \<Rightarrow> string + url_obj" where
  "ref_new_URL u =
     (let scheme = (if startsWith u ''https://'' then ''https:''
                    else if startsWith u ''http://'' then ''http:'' else []);
          rest = drop (length scheme + 2) u;
          host = takeWhile (\<lambda>c. c \<noteq> CHR ''/'') rest;
          p = dropWhile (\<lambda>c. c \<noteq> CHR ''/'') rest
      in if scheme = [] \<or> host = [] then Inl ''Invalid URL''
         else Inr \<lparr>protocol = scheme, hostname = host, port = [],
                    pathname = (if p = [] then ''/'' else p), search = []\<rparr>)"

definition ref_JSON_texts :: "(string \<times> jsval) list" where
  "ref_JSON_texts =
     [(''{\"result\":{\"advice\":\"x\"}}'', JObj [(''result'', JObj [(''advice'', JStr ''x'')])]),
      (''{\"result\":{\"ok\":1}}'', JObj [(''result'', JObj [(''ok'', JNum (Num 1))])]),
      (''{\"result\":0}'', JObj [(''result'', JNum (Num 0))]),
      (''{\"ok\":1}'', JObj [(''ok'', JNum (Num 1))]),
      (''null'', JNull),
      (''{\"error\":{\"code\":-32600}}'', JObj [(''error'', JObj [(''code'', JNum (Num (- 32600)))])]),
      (''{\"error\":{\"code\":-32601}}'', JObj [(''error'', JObj [(''code'', JNum (Num (- 32601)))])]),
      (''{\"text\":7}'', JObj [(''text'', JNum (Num 7))])]"

definition ref_JSON_parse :: "string \<Rightarrow> string + jsval" where
  "ref_JSON_parse s =
     (case map_of ref_JSON_texts s of
        None \<Rightarrow> Inl ''Unexpected token in JSON''
      | Some v \<Rightarrow> Inr v)"

definition is_digit :: "char \<Rightarrow> bool" where
  "is_digit c = (48 \<le> (of_char c :: nat) \<and> (of_char c :: nat) \<le> 57)"

definition digits_value :: "string \<Rightarrow> nat" where
  "digits_value ds = foldl (\<lambda>acc c. 10 * acc + (of_char c - 48)) 0 ds"

definition int_str :: "int \<Rightarrow> string" where
  "int_str i = (if i < 0 then ''-'' @ dec_str (nat (- i)) else dec_str (nat i))"

fun frac_digits :: "nat \<Rightarrow> rat \<Rightarrow> string" where
  "frac_digits 0 r = []"
| "frac_digits (Suc n) r =
     (if r = 0 then []
      else (let d = nat \<lfloor>10 * r\<rfloor> in char_of (48 + d) # frac_digits n (10 * r - of_nat d)))"

definition ref_number_text :: "jsnum \<Rightarrow> string" where
  "ref_number_text n =
     (case n of
        Num r \<Rightarrow>
          (let a = \<bar>r\<bar>; whole = \<lfloor>a\<rfloor>; f = a - of_int whole in
           (if r < 0 then ''-'' else []) @ int_str whole @
           (if f = 0 then [] else ''.'' @ frac_digits 17 f))
      | _ \<Rightarrow> ''null'')"

definition ref_quote :: "string \<Rightarrow> string" where
  "ref_quote s =
     [CHR 0x22] @
     concat (map (\<lambda>c. if c = CHR 0x22 \<or> c = CHR 0x5C then [CHR 0x5C, c]
                        else if c = CHR 0x0A then [CHR 0x5C, CHR ''n''] else [c]) s) @
     [CHR 0x22]"

definition join_commas :: "string list \<Rightarrow> string" where
  "join_commas xs = (case xs of [] \<Rightarrow> [] | y # ys \<Rightarrow> y @ concat (map (\<lambda>z. '','' @ z) ys))"

fun ref_JSON_stringify :: "jsval \<Rightarrow> string" where
  "ref_JSON_stringify JUndefined = ''null''"
| "ref_JSON_stringify JNull = ''null''"
| "ref_JSON_stringify (JBool b) = (if b then ''true'' else ''false'')"
| "ref_JSON_stringify (JNum n) = ref_number_text n"
| "ref_JSON_stringify (JStr s) = ref_quote s"
| "ref_JSON_stringify (JArr xs) = ''['' @ join_commas (map ref_JSON_stringify xs) @ '']''"
| "ref_JSON_stringify (JObj kvs) =
     ''{'' @ join_commas (map (\<lambda>kv. ref_quote (fst kv) @ '':'' @ ref_JSON_stringify (snd kv))
                            (filter (\<lambda>kv. snd kv \<noteq> JUndefined) kvs)) @ ''}''"

text \<open>
  \<open>parseInt\<close> and \<open>parseFloat\<close> of the reference runtime. On a string: leading blanks
  and a sign are skipped, then \<open>parseInt\<close> reads the longest prefix of hexadecimal
  digits after \<open>0x\<close> or of decimal digits otherwise, and \<open>parseFloat\<close> reads
  \<open>Infinity\<close> or the longest prefix that is a decimal literal with an optional
  exponent; NaN when there is no such prefix. On a number, \<open>parseFloat\<close> is the number
  and \<open>parseInt\<close> its integer part (as the engine does from \<open>1e-6\<close> up to \<open>1e21\<close> in
  absolute value). An array is read through its first element, as its string
  conversion begins with it; every other value gives NaN.
\<close>

definition split_sign :: "string \<Rightarrow> rat \<times> string" where
  "split_sign s =
     (case s of
        [] \<Rightarrow> (1, [])
      | c # cs \<Rightarrow> if c = CHR ''-'' then (- 1, cs) else if c = CHR ''+'' then (1, cs) else (1, s))"

definition hex_digit :: "char \<Rightarrow> nat option" where
  "hex_digit c =
     (let n = of_char c :: nat in
      if 48 \<le> n \<and> n \<le> 57 then Some (n - 48)
      else if 65 \<le> n \<and> n \<le> 70 then Some (n - 55)
      else if 97 \<le> n \<and> n \<le> 102 then Some (n - 87)
      else None)"

definition hex_value :: "string \<Rightarrow> nat" where
  "hex_value ds = foldl (\<lambda>acc c. 16 * acc + (case hex_digit c of None \<Rightarrow> 0 | Some d \<Rightarrow> d)) 0 ds"

definition parseInt_string :: "string \<Rightarrow> jsnum" where
  "parseInt_string s =
     (let (sgn, u) = split_sign (dropWhile js_ws s) in
      if startsWith u ''0x'' \<or> startsWith u ''0X'' then
        (let hs = takeWhile (\<lambda>c. hex_digit c \<noteq> None) (drop 2 u)
         in if hs = [] then NaN else Num (sgn * of_nat (hex_value hs)))
      else
        (let ds = takeWhile is_digit u
         in if ds = [] then NaN else Num (sgn * of_nat (digits_value ds))))"

definition exponent_of :: "string \<Rightarrow> int" where
  "exponent_of r =
     (case r of
        [] \<Rightarrow> 0
      | c # cs \<Rightarrow>
          if c = CHR ''e'' \<or> c = CHR ''E'' then
            (let (sgn, u) = split_sign cs; ds = takeWhile is_digit u
             in if ds = [] then 0
                else if sgn < 0 then - int (digits_value ds) else int (digits_value ds))
          else 0)"

definition scale10 :: "rat \<Rightarrow> int \<Rightarrow> rat" where
  "scale10 m e = (if 0 \<le> e then m * 10 ^ nat e else m / 10 ^ nat (- e))"

definition parseFloat_string :: "string \<Rightarrow> jsnum" where
  "parseFloat_string s =
     (let (sgn, u) = split_sign (dropWhile js_ws s) in
      if startsWith u ''Infinity'' then (if sgn < 0 then NegInf else PosInf)
      else
        (let ip = takeWhile is_digit u;
             r1 = drop (length ip) u;
             fp = (if startsWith r1 ''.'' then takeWhile is_digit (tl r1) else []);
             r2 = (if startsWith r1 ''.'' then drop (Suc (length fp)) r1 else r1)
         in if ip = [] \<and> fp = [] then NaN
            else Num (sgn * scale10 (of_nat (digits_value ip) + of_nat (digits_value fp) / 10 ^ length fp)
                                (exponent_of r2))))"

fun ref_parseInt :: "jsval \<Rightarrow> jsnum" where
  "ref_parseInt (JStr s) = parseInt_string s"
| "ref_parseInt (JNum (Num r)) = Num (if r < 0 then - of_int \<lfloor>- r\<rfloor> else of_int \<lfloor>r\<rfloor>)"
| "ref_parseInt (JArr (x # xs)) = ref_parseInt x"
| "ref_parseInt v = NaN"

fun ref_parseFloat :: "jsval \<Rightarrow> jsnum" where
  "ref_parseFloat (JStr s) = parseFloat_string s"
| "ref_parseFloat (JNum n) = n"
| "ref_parseFloat (JArr (x # xs)) = ref_parseFloat x"
| "ref_parseFloat v = NaN"

definition ref_msg_read_nullish :: "jsval \<Rightarrow> string \<Rightarrow> string" where
  "ref_msg_read_nullish v k =
     ''Cannot read properties of '' @ (if v = JNull then ''null'' else ''undefined'') @
     '' (reading '' @ [CHR 0x27] @ k @ [CHR 0x27] @ '')''"

definition ref_msg_not_function :: "jsval \<Rightarrow> string \<Rightarrow> string" where
  "ref_msg_not_function v k = k @ '' is not a function''"

definition ref_runtime :: "(wire_request \<Rightarrow> string + string http_reply) \<Rightarrow> runtime" where
  "ref_runtime net =
     \<lparr>env_MCP_SERVER_URL = Some ''https://mcp.example'',
      env_NODE_ENV = None,
      Date_now = 1700000000000,
      toISOString_now = ''2023-11-14T22:13:20.000Z'',
      JSON_parse = ref_JSON_parse,
      JSON_stringify = ref_JSON_stringify,
      parseInt = ref_parseInt,
      parseFloat = ref_parseFloat,
      new_URL = ref_new_URL,
      transport = net,
      msg_read_nullish = ref_msg_read_nullish,
      msg_not_function = ref_msg_not_function,
      error_stack = message\<rparr>"

text \<open>Mocked backends: one that is unreachable, and one that answers every request alike.\<close>

definition net_down :: "wire_request \<Rightarrow> string + string http_reply" where
  "net_down req = Inl ''connect ECONNREFUSED''"

definition net_reply :: "nat \<Rightarrow> string \<Rightarrow> string \<Rightarrow> wire_request \<Rightarrow> string + string http_reply" where
  "net_reply code ctype text req =
     Inr \<lparr>statusCode = code, body = text, headers = [(''content-type'', ctype)]\<rparr>"

text \<open>
  A backend that answers the JSON-RPC endpoint \<open>/mcp\<close> with \<open>first\<close> and every other
  path with \<open>second\<close>.
\<close>

definition net_two ::
  "(nat \<times> string) \<Rightarrow> (nat \<times> string) \<Rightarrow> wire_request \<Rightarrow> string + string http_reply" where
  "net_two first second req =
     (let (code, text) = (if w_path req = ''/mcp'' then first else second)
      in Inr \<lparr>statusCode = code, body = text, headers = [(''content-type'', ''application/json'')]\<rparr>)"

section \<open>Notions the claims are stated with\<close>

text \<open>
  The operation whose handler the entry point calls for an event, read off \<open>handler\<close>
  and \<open>dispatch\<close>: none when the event is a preflight, when routing or parameter
  extraction throws, or when the endpoint is \<open>health\<close>, \<open>info\<close> or \<open>unknown\<close>.
\<close>

definition invoked_operation :: "runtime \<Rightarrow> jsval \<Rightarrow> operation option" where
  "invoked_operation rt event =
     (case js_get event ''httpMethod'' of
        None \<Rightarrow> None
      | Some m \<Rightarrow>
          if is_options m event then None
          else (case getEndpoint rt event of
                  Inl e \<Rightarrow> None
                | Inr endpoint \<Rightarrow>
                    (case extractParams rt event of
                       Inl e \<Rightarrow> None
                     | Inr params \<Rightarrow> endpoint_operation endpoint)))"

text \<open>A GET request for a path, as API Gateway hands it to the entry point.\<close>

definition get_event :: "string \<Rightarrow> jsval" where
  "get_event p = JObj [(''path'', JStr p), (''httpMethod'', JStr ''GET'')]"

text \<open>
  The parsing policy of the transport in the words of the specification: for an
  event-stream response, the first line (of the body without its surrounding blanks)
  that starts with \<open>data: \<close> is taken and its remainder parsed as JSON; when there is no
  such line or its parse fails, the whole body is parsed as JSON; when that fails, the
  raw text is the body.
\<close>

definition content_type :: "string http_reply \<Rightarrow> string" where
  "content_type res = (case map_of (headers res) ''content-type'' of None \<Rightarrow> [] | Some c \<Rightarrow> c)"

definition whole_body :: "runtime \<Rightarrow> string \<Rightarrow> jsval" where
  "whole_body rt data = (case JSON_parse rt data of Inl m \<Rightarrow> JStr data | Inr v \<Rightarrow> v)"

fun first_data_line :: "string list \<Rightarrow> string option" where
  "first_data_line [] = None"
| "first_data_line (line # lines) =
     (if startsWith line ''data: '' then Some (drop 6 line) else first_data_line lines)"

definition parse_policy :: "runtime \<Rightarrow> string \<Rightarrow> string \<Rightarrow> jsval" where
  "parse_policy rt contentType data =
     (case (if js_includes contentType ''text/event-stream''
            then first_data_line (split_nl (trim data)) else None) of
        Some rest \<Rightarrow>
          (case JSON_parse rt rest of
             Inr v \<Rightarrow> v
           | Inl m \<Rightarrow> whole_body rt data)
      | None \<Rightarrow> whole_body rt data)"

text \<open>
  Two facts of the JSON grammar that the policy rests on, as a condition on the
  runtime's \<open>JSON.parse\<close>: a text with a line that starts with \<open>data: \<close> is no JSON
  text (a line break can only stand between tokens, and no token starts with \<open>d\<close>),
  and neither is the empty text.
\<close>

definition has_data_line :: "string \<Rightarrow> bool" where
  "has_data_line s = list_ex (\<lambda>line. startsWith line ''data: '') (split_nl (trim s))"

definition json_rejects_event_text :: "runtime \<Rightarrow> bool" where
  "json_rejects_event_text rt =
     ((\<forall>s. has_data_line s \<longrightarrow> isl (JSON_parse rt s)) \<and> isl (JSON_parse rt []))"

text \<open>The event-stream frame of a FastMCP backend.\<close>

definition sse_body :: string where
  "sse_body = ''event: message\<newline>data: {\"result\":{\"ok\":1}}\<newline>\<newline>''"

text \<open>The tool each operation calls, and the parameters each handler trims.\<close>

fun tool_name :: "operation \<Rightarrow> string" where
  "tool_name FiscalAdvice = ''get_fiscal_advice''"
| "tool_name GenerateEmbedding = ''generate_embedding''"
| "tool_name StoreDocument = ''store_document''"
| "tool_name SearchSimilarDocuments = ''search_similar_documents''"
| "tool_name StoreDocumentChunk = ''store_document_chunk''"
| "tool_name SearchSimilarChunks = ''search_similar_chunks''"
| "tool_name ChatWithClassroom = ''chat_with_classroom_assistant''"
| "tool_name GetClassroomInfo = ''get_classroom_info''"
| "tool_name CreateEmbedding = ''create_embedding''"
| "tool_name ProfessorAssistant = ''professor_assistant''"
| "tool_name GenerateResources = ''generate_resources''"
| "tool_name AnalyzeUserContext = ''analyze_and_update_user_context''"

fun trimmed_params :: "operation \<Rightarrow> string list" where
  "trimmed_params FiscalAdvice = []"
| "trimmed_params GenerateEmbedding = [''text'']"
| "trimmed_params StoreDocument = [''text'']"
| "trimmed_params SearchSimilarDocuments = [''query_text'']"
| "trimmed_params StoreDocumentChunk = [''classroom_document_id'', ''content'']"
| "trimmed_params SearchSimilarChunks = [''query_text'', ''classroom_id'']"
| "trimmed_params ChatWithClassroom = [''message'', ''classroom_id'']"
| "trimmed_params GetClassroomInfo = [''classroom_id'']"
| "trimmed_params CreateEmbedding = [''text'', ''classroom_id'']"
| "trimmed_params ProfessorAssistant = [''question'', ''classroom_id'']"
| "trimmed_params GenerateResources = [''classroom_id'', ''resource_type'', ''user_id'']"
| "trimmed_params AnalyzeUserContext = [''user_id'', ''session_id'']"

text \<open>
  Tool arguments nested one level deeper under a \<open>request\<close> key, and tool arguments
  that are an object without such a key.
\<close>

fun nested_under_request :: "jsval \<Rightarrow> bool" where
  "nested_under_request (JObj [(k, JObj inner)]) = (k = ''request'')"
| "nested_under_request v = False"

fun flat_arguments :: "jsval \<Rightarrow> bool" where
  "flat_arguments (JObj kvs) = (map_of kvs ''request'' = None)"
| "flat_arguments v = False"

definition nesting_ok :: "operation \<Rightarrow> jsval \<Rightarrow> bool" where
  "nesting_ok op args =
     (if op = FiscalAdvice \<or> op = ChatWithClassroom then nested_under_request args
      else flat_arguments args)"

text \<open>
  The three ways a handler ends: the \<open>trim\<close> of a validated parameter throws, a
  validation rejects with a 400 body, or the tool is called inside the \<open>try\<close> block.
\<close>

definition error_named :: "(string \<times> jsval) list \<Rightarrow> bool" where
  "error_named kvs = (case map_of kvs ''error'' of Some (JStr m) \<Rightarrow> m \<noteq> [] | _ \<Rightarrow> False)"

definition hint_ok :: "operation \<Rightarrow> (string \<times> jsval) list \<Rightarrow> bool" where
  "hint_ok op hint =
     (if op = FiscalAdvice then hint = []
      else (\<exists>h. h \<noteq> [] \<and> hint = [(''hint'', JStr h)]))"


definition trim_throws :: "operation \<Rightarrow> runtime \<Rightarrow> bag \<Rightarrow> jsval reply outcome \<Rightarrow> bool" where
  "trim_throws op rt params out =
     (\<exists>k. k \<in> set (trimmed_params op) \<and> truthy (param params k) \<and>
          \<not> js_typeof_string (param params k) \<and>
          out = ([], Inl (Exn TypeErrorK (msg_not_function rt (param params k) ''trim''))))"

definition rejects :: "jsval reply outcome \<Rightarrow> bool" where
  "rejects out =
     (\<exists>kvs. out = bad_request kvs \<and> error_named kvs \<and> map_of kvs ''timestamp'' = None)"

definition calls_tool :: "operation \<Rightarrow> runtime \<Rightarrow> jsval reply outcome \<Rightarrow> bool" where
  "calls_tool op rt out =
     (\<exists>args md hint. out = try_call rt (tool_name op) args md hint \<and>
        hint_ok op hint \<and> nesting_ok op args)"

definition shape :: "operation \<Rightarrow> runtime \<Rightarrow> bag \<Rightarrow> jsval reply outcome \<Rightarrow> bool" where
  "shape op rt params out =
     (trim_throws op rt params out \<or> rejects out \<or> calls_tool op rt out)"


text \<open>
  The guards of each handler, in the order in which the source makes them: a parameter
  that must be truthy, a string parameter that must not be blank, a parameter that must
  be neither \<open>undefined\<close> nor \<open>null\<close>, and a string parameter that must be one of a
  list after lower-casing. The numeric checks of \<open>handleMcpSearchSimilarDocuments\<close>
  come after its only string guard and are not listed.
\<close>

datatype guard = Truthy string | NonBlank string | Present string | Allowed string "string list"

fun guards :: "operation \<Rightarrow> guard list" where
  "guards FiscalAdvice = [Truthy ''actividad'']"
| "guards GenerateEmbedding = [NonBlank ''text'']"
| "guards StoreDocument = [NonBlank ''text'']"
| "guards SearchSimilarDocuments = [NonBlank ''query_text'']"
| "guards StoreDocumentChunk =
     [NonBlank ''classroom_document_id'', Present ''chunk_index'', NonBlank ''content'']"
| "guards SearchSimilarChunks = [NonBlank ''query_text'', NonBlank ''classroom_id'']"
| "guards ChatWithClassroom = [NonBlank ''message'', NonBlank ''classroom_id'']"
| "guards GetClassroomInfo = [NonBlank ''classroom_id'']"
| "guards CreateEmbedding = [NonBlank ''text'', NonBlank ''classroom_id'']"
| "guards ProfessorAssistant = [NonBlank ''question'', NonBlank ''classroom_id'']"
| "guards GenerateResources =
     [NonBlank ''classroom_id'', NonBlank ''resource_type'',
      Allowed ''resource_type'' [''pdf'', ''ppt''], NonBlank ''user_id'']"
| "guards AnalyzeUserContext = [NonBlank ''user_id'', NonBlank ''session_id'']"

fun guard_param :: "guard \<Rightarrow> string" where
  "guard_param (Truthy k) = k"
| "guard_param (NonBlank k) = k"
| "guard_param (Present k) = k"
| "guard_param (Allowed k vs) = k"

definition nonblank_string :: "jsval \<Rightarrow> bool" where
  "nonblank_string v = (case v of JStr s \<Rightarrow> trim s \<noteq> [] | _ \<Rightarrow> False)"

definition missing_or_blank :: "jsval \<Rightarrow> bool" where
  "missing_or_blank v = (case v of JStr s \<Rightarrow> trim s = [] | _ \<Rightarrow> \<not> truthy v)"

fun guard_passes :: "bag \<Rightarrow> guard \<Rightarrow> bool" where
  "guard_passes params (Truthy k) = truthy (param params k)"
| "guard_passes params (NonBlank k) = nonblank_string (param params k)"
| "guard_passes params (Present k) = (param params k \<noteq> JUndefined \<and> param params k \<noteq> JNull)"
| "guard_passes params (Allowed k vs) =
     (case param params k of JStr s \<Rightarrow> toLowerCase s \<in> set vs | _ \<Rightarrow> False)"

fun string_missing :: "bag \<Rightarrow> guard \<Rightarrow> bool" where
  "string_missing params (Truthy k) = (\<not> truthy (param params k))"
| "string_missing params (NonBlank k) = missing_or_blank (param params k)"
| "string_missing params (Present k) = False"
| "string_missing params (Allowed k vs) = False"

fun required_fields :: "operation \<Rightarrow> string list" where
  "required_fields FiscalAdvice = [''actividad'']"
| "required_fields GenerateEmbedding = [''text'']"
| "required_fields StoreDocument = [''text'']"
| "required_fields SearchSimilarDocuments = [''query_text'']"
| "required_fields StoreDocumentChunk = [''classroom_document_id'', ''chunk_index'', ''content'']"
| "required_fields SearchSimilarChunks = [''query_text'', ''classroom_id'']"
| "required_fields ChatWithClassroom = [''message'', ''classroom_id'']"
| "required_fields GetClassroomInfo = [''classroom_id'']"
| "required_fields CreateEmbedding = [''text'', ''classroom_id'']"
| "required_fields ProfessorAssistant = [''question'', ''classroom_id'']"
| "required_fields GenerateResources = [''classroom_id'', ''resource_type'', ''user_id'']"
| "required_fields AnalyzeUserContext = [''user_id'', ''session_id'']"

fun optional_listing :: "operation \<Rightarrow> string \<Rightarrow> string list option" where
  "optional_listing FiscalAdvice k =
     Some [''ingresos_anuales'', ''estado'', ''regimen_actual'', ''tiene_rfc'', ''contexto_adicional'']"
| "optional_listing StoreDocument k = Some [''classroom_id'']"
| "optional_listing SearchSimilarDocuments k = Some [''classroom_id'', ''limit'', ''threshold'']"
| "optional_listing StoreDocumentChunk k =
     (if k = ''classroom_document_id'' then Some [''token_count''] else None)"
| "optional_listing SearchSimilarChunks k = Some [''limit'', ''threshold'']"
| "optional_listing ChatWithClassroom k = Some [''user_id'', ''session_id'']"
| "optional_listing GenerateResources k = Some [''topic'', ''source_document_ids'']"
| "optional_listing op k = None"

text \<open>
  A 400 result for the parameter \<open>k\<close> of an operation: sent before any network call,
  its \<open>error\<close> quotes the parameter's name, \<open>required\<close> lists the operation's required
  parameters, \<open>optional\<close> is present or absent as the table says, and every operation
  but fiscal advice gives a hint.
\<close>

definition rejection :: "operation \<Rightarrow> string \<Rightarrow> jsval reply outcome \<Rightarrow> bool" where
  "rejection op k out =
     (\<exists>kvs m. out = ([], Inr \<lparr>statusCode = 400, body = JObj kvs\<rparr>) \<and>
        map_of kvs ''error'' = Some (JStr m) \<and>
        js_includes m ([CHR 0x22] @ k @ [CHR 0x22]) \<and>
        map_of kvs ''required'' = Some (strs (required_fields op)) \<and>
        k \<in> set (required_fields op) \<and>
        map_of kvs ''optional'' = map_option strs (optional_listing op k) \<and>
        (if op = FiscalAdvice then map_of kvs ''hint'' = None
         else (\<exists>h. h \<noteq> [] \<and> map_of kvs ''hint'' = Some (JStr h))))"

definition the_str :: "jsval \<Rightarrow> string" where
  "the_str v = (case v of JStr s \<Rightarrow> s | _ \<Rightarrow> [])"

text \<open>
  Whether the body object of a response carries the timestamp: not at status 400; at
  the statuses 200, 404 and 500, the clock's ISO string.
\<close>

definition stamped :: "runtime \<Rightarrow> nat \<Rightarrow> (string \<times> jsval) list \<Rightarrow> bool" where
  "stamped rt code kvs =
     (if code = 400 then map_of kvs ''timestamp'' = None
      else code \<in> {200, 404, 500} \<and> map_of kvs ''timestamp'' = Some (timestamp rt))"

text \<open>The status a handler answers with, if it returns.\<close>

definition status_of :: "jsval reply outcome \<Rightarrow> nat option" where
  "status_of out = (case snd out of Inl e \<Rightarrow> None | Inr r \<Rightarrow> Some (statusCode r))"

text \<open>A mocked backend that answers every request with HTTP 200 and \<open>{"result":{"ok":1}}\<close>.\<close>

definition ok_net :: "wire_request \<Rightarrow> string + string http_reply" where
  "ok_net = net_reply 200 ''application/json'' ''{\"result\":{\"ok\":1}}''"

section \<open>Routing\<close>

lemma endpoint_operation_range:
  "endpoint_operation ep = Some op \<Longrightarrow>
     op \<in> {FiscalAdvice, GenerateEmbedding, StoreDocumentChunk, SearchSimilarChunks,
            ChatWithClassroom, GetClassroomInfo, CreateEmbedding, ProfessorAssistant,
            GenerateResources, AnalyzeUserContext}"
  by (auto simp: endpoint_operation_def split: if_splits)

lemma extractParams_get_event: "extractParams rt (get_event p) = Inr []"
  by (simp add: extractParams_def get_event_def js_read_def)

lemma getEndpoint_get_event: "getEndpoint rt (get_event p) = Inr (route (strip_trailing_slash p))"
  by (simp add: getEndpoint_def get_event_def js_read_def js_or_def js_get_opt_def)

lemma get_event_method: "js_get (get_event p) ''httpMethod'' = Some (JStr ''GET'')"
  by (simp add: get_event_def)

lemma get_event_not_options: "\<not> is_options (JStr ''GET'') (get_event p)"
  by (simp add: get_event_def is_options_def js_get_opt_def)

lemma invoked_get_event:
  "invoked_operation rt (get_event p) = endpoint_operation (route (strip_trailing_slash p))"
  unfolding invoked_operation_def
  by (simp add: extractParams_get_event getEndpoint_get_event get_event_method get_event_not_options)

lemma routes_reached:
  "endpoint_operation (route (strip_trailing_slash ''/fiscal-advice'')) = Some FiscalAdvice"
  "endpoint_operation (route (strip_trailing_slash ''/generate-embedding'')) = Some GenerateEmbedding"
  "endpoint_operation (route (strip_trailing_slash ''/store-document-chunk'')) = Some StoreDocumentChunk"
  "endpoint_operation (route (strip_trailing_slash ''/search-chunks'')) = Some SearchSimilarChunks"
  "endpoint_operation (route (strip_trailing_slash ''/chat-classroom'')) = Some ChatWithClassroom"
  "endpoint_operation (route (strip_trailing_slash ''/classroom-info'')) = Some GetClassroomInfo"
  "endpoint_operation (route (strip_trailing_slash ''/create-embedding'')) = Some CreateEmbedding"
  "endpoint_operation (route (strip_trailing_slash ''/professor-assistant'')) = Some ProfessorAssistant"
  "endpoint_operation (route (strip_trailing_slash ''/generate-resources'')) = Some GenerateResources"
  "endpoint_operation (route (strip_trailing_slash ''/analyze-user-context'')) = Some AnalyzeUserContext"
  by (simp_all add: route_def strip_trailing_slash_def endpoint_operation_def)

lemma invoked_operation_range:
  "invoked_operation rt event = Some op \<Longrightarrow>
     op \<in> {FiscalAdvice, GenerateEmbedding, StoreDocumentChunk, SearchSimilarChunks,
            ChatWithClassroom, GetClassroomInfo, CreateEmbedding, ProfessorAssistant,
            GenerateResources, AnalyzeUserContext}"
  unfolding invoked_operation_def
  by (auto split: option.splits if_splits sum.splits dest: endpoint_operation_range)

text \<open>
  \<open>invoked_operation\<close> is what the entry point does: when it names an operation, the
  \<open>try\<close> block is that operation's handler on the extracted parameters.
\<close>

lemma invoked_operation_dispatch:
  assumes "invoked_operation rt event = Some op"
  shows "\<exists>params. extractParams rt event = Inr params \<and> dispatch rt event = mcpBridge op rt params"
  using assms unfolding invoked_operation_def dispatch_def
  by (auto split: option.splits if_splits sum.splits)

text \<open>
  The requests the entry point sends are those of the handler it calls; when it calls
  none, it sends nothing.
\<close>

lemma not_invoked_sends_nothing:
  assumes "invoked_operation rt event = None"
  shows "fst (handler rt event) = []"
proof (cases "js_get event ''httpMethod''")
  case None
  then show ?thesis by (simp add: handler_def js_read_def)
next
  case (Some m)
  show ?thesis
  proof (cases "is_options m event")
    case True
    with Some show ?thesis by (simp add: handler_def js_read_def)
  next
    case False
    with assms Some have "fst (dispatch rt event) = []"
      by (auto simp: invoked_operation_def dispatch_def split: sum.splits)
    with Some False show ?thesis
      by (cases "dispatch rt event") (auto simp: handler_def js_read_def split: sum.splits)
  qed
qed

lemma invoked_sends_handler_requests:
  assumes "invoked_operation rt event = Some op"
  shows "\<exists>params. extractParams rt event = Inr params \<and>
           fst (handler rt event) = fst (mcpBridge op rt params)"
proof -
  from assms obtain m where m: "js_get event ''httpMethod'' = Some m" "\<not> is_options m event"
    by (auto simp: invoked_operation_def split: option.splits if_splits)
  from invoked_operation_dispatch[OF assms] obtain params where
    p: "extractParams rt event = Inr params" "dispatch rt event = mcpBridge op rt params"
    by auto
  have "fst (handler rt event) = fst (dispatch rt event)"
    using m by (cases "dispatch rt event") (auto simp: handler_def js_read_def split: sum.splits)
  with p show ?thesis by auto
qed

text \<open>
  Claim C10. Only ten of the twelve exported operations are reachable through the
  dispatcher: whatever the runtime and the inbound event, the entry point calls the
  handler of one of ten operations or of none, and never \<open>handleMcpStoreDocument\<close> or
  \<open>handleMcpSearchSimilarDocuments\<close>; each of the ten is reached by some event.
\<close>

theorem dispatcher_reaches_ten_operations:
  "{op. \<exists>rt event. invoked_operation rt event = Some op} =
     {FiscalAdvice, GenerateEmbedding, StoreDocumentChunk, SearchSimilarChunks,
      ChatWithClassroom, GetClassroomInfo, CreateEmbedding, ProfessorAssistant,
      GenerateResources, AnalyzeUserContext}"
proof (intro equalityI subsetI)
  fix op
  assume "op \<in> {op. \<exists>rt event. invoked_operation rt event = Some op}"
  then show "op \<in> {FiscalAdvice, GenerateEmbedding, StoreDocumentChunk, SearchSimilarChunks,
      ChatWithClassroom, GetClassroomInfo, CreateEmbedding, ProfessorAssistant,
      GenerateResources, AnalyzeUserContext}"
    using invoked_operation_range by blast
next
  fix op
  assume "op \<in> {FiscalAdvice, GenerateEmbedding, StoreDocumentChunk, SearchSimilarChunks,
      ChatWithClassroom, GetClassroomInfo, CreateEmbedding, ProfessorAssistant,
      GenerateResources, AnalyzeUserContext}"
  then have "\<exists>p. endpoint_operation (route (strip_trailing_slash p)) = Some op"
    using routes_reached by blast
  then obtain p where "invoked_operation (ref_runtime net_down) (get_event p) = Some op"
    using invoked_get_event by metis
  then show "op \<in> {op. \<exists>rt event. invoked_operation rt event = Some op}"
    by blast
qed

theorem dispatcher_reaches_ten_operations_witness:
  "StoreDocument \<notin> {op. \<exists>rt event. invoked_operation rt event = Some op} \<and>
   SearchSimilarDocuments \<notin> {op. \<exists>rt event. invoked_operation rt event = Some op} \<and>
   invoked_operation (ref_runtime net_down) (get_event ''/store-document'') = None \<and>
   invoked_operation (ref_runtime net_down) (get_event ''/search-chunks'') = Some SearchSimilarChunks"
  unfolding dispatcher_reaches_ten_operations
  by (simp add: invoked_get_event route_def strip_trailing_slash_def endpoint_operation_def)

section \<open>The transport\<close>

lemma makeHttpRequest_resolved:
  "new_URL rt url = Inr u \<Longrightarrow> transport rt (reqOptions u opts rt) = Inr res \<Longrightarrow>
   makeHttpRequest rt url opts = ([reqOptions u opts rt], Inr (on_end rt res))"
  by (simp add: makeHttpRequest_def)

lemma makeHttpRequest_sent:
  "fst (makeHttpRequest rt url opts) =
     (case new_URL rt url of Inl m \<Rightarrow> [] | Inr u \<Rightarrow> [reqOptions u opts rt])"
  by (simp add: makeHttpRequest_def Let_def split: sum.splits)

lemma scan_lines_first:
  "scan_lines ls = (case first_data_line ls of None \<Rightarrow> [] | Some r \<Rightarrow> r)"
  by (induction ls) auto

lemma first_data_line_ex:
  "first_data_line ls = Some r \<Longrightarrow> list_ex (\<lambda>line. startsWith line ''data: '') ls"
  by (induction ls) (auto split: if_splits)

text \<open>Only the first \<open>data: \<close> line counts: whatever follows it is ignored.\<close>

lemma first_data_line_append:
  "\<not> list_ex (\<lambda>line. startsWith line ''data: '') pre \<Longrightarrow>
   first_data_line (pre @ (''data: '' @ r) # post) = Some r"
  by (induction pre) auto

lemma whole_body_raw: "isl (JSON_parse rt data) \<Longrightarrow> whole_body rt data = JStr data"
  by (auto simp: whole_body_def isl_def)

lemma on_end_policy:
  assumes H: "json_rejects_event_text rt"
  shows "on_end rt res =
           \<lparr>statusCode = statusCode res,
            body = parse_policy rt (content_type res) (body res),
            headers = headers res\<rparr>"
proof (cases "js_includes (content_type res) ''text/event-stream''")
  case False
  then show ?thesis
    by (simp add: on_end_def parse_policy_def whole_body_def content_type_def Let_def
             split: sum.splits)
next
  case sse: True
  show ?thesis
  proof (cases "first_data_line (split_nl (trim (body res)))")
    case None
    with sse show ?thesis
      by (simp add: on_end_def parse_policy_def whole_body_def content_type_def Let_def
               scan_lines_first split: sum.splits)
  next
    case (Some r)
    then have "has_data_line (body res)"
      by (simp add: has_data_line_def first_data_line_ex)
    with H have raw: "whole_body rt (body res) = JStr (body res)"
      by (simp add: json_rejects_event_text_def whole_body_raw)
    show ?thesis
    proof (cases "r = []")
      case True
      with H have "isl (JSON_parse rt r)" by (simp add: json_rejects_event_text_def)
      with sse Some True raw show ?thesis
        by (auto simp add: on_end_def parse_policy_def content_type_def Let_def
                 scan_lines_first isl_def whole_body_def split: sum.splits)
    next
      case False
      with sse Some raw show ?thesis
        by (simp add: on_end_def parse_policy_def content_type_def Let_def
                 scan_lines_first split: sum.splits)
    qed
  qed
qed

text \<open>The reference runtime: its URL parser, its \<open>JSON.parse\<close> and its network.\<close>

lemma ref_JSON_parse_keys: "ref_JSON_parse s = Inr v \<Longrightarrow> s \<in> fst ` set ref_JSON_texts"
  by (auto simp: ref_JSON_parse_def split: option.splits dest: map_of_SomeD intro: rev_image_eqI)

lemma ref_rejects_event_text: "json_rejects_event_text (ref_runtime net)"
proof -
  have "\<not> has_data_line s" if "s \<in> fst ` set ref_JSON_texts" for s
    using that by (auto simp: ref_JSON_texts_def has_data_line_def trim_def js_ws_def)
  then have "isl (ref_JSON_parse s)" if "has_data_line s" for s
    using that ref_JSON_parse_keys by (cases "ref_JSON_parse s") auto
  moreover have "isl (ref_JSON_parse [])"
    by (simp add: ref_JSON_parse_def ref_JSON_texts_def)
  ultimately show ?thesis
    by (simp add: json_rejects_event_text_def ref_runtime_def)
qed

lemma ref_new_URL_mcp:
  "new_URL (ref_runtime net) ''https://mcp.example/mcp'' =
     Inr \<lparr>protocol = ''https:'', hostname = ''mcp.example'', port = [], pathname = ''/mcp'', search = []\<rparr>"
  by (simp add: ref_runtime_def ref_new_URL_def Let_def)

lemma ref_MCP_SERVER_URL: "MCP_SERVER_URL (ref_runtime net) = ''https://mcp.example''"
  by (simp add: MCP_SERVER_URL_def ref_runtime_def)

lemma ref_transport_reply:
  "transport (ref_runtime (net_reply code ctype text)) req =
     Inr \<lparr>statusCode = code, body = text, headers = [(''content-type'', ctype)]\<rparr>"
  by (simp add: ref_runtime_def net_reply_def)

lemma ref_makeHttpRequest_mcp:
  "makeHttpRequest (ref_runtime (net_reply code ctype text)) ''https://mcp.example/mcp'' opts =
     ([reqOptions \<lparr>protocol = ''https:'', hostname = ''mcp.example'', port = [], pathname = ''/mcp'', search = []\<rparr>
          opts (ref_runtime (net_reply code ctype text))],
      Inr (on_end (ref_runtime (net_reply code ctype text))
             \<lparr>statusCode = code, body = text, headers = [(''content-type'', ctype)]\<rparr>))"
  by (simp add: makeHttpRequest_resolved[OF ref_new_URL_mcp ref_transport_reply])

lemma ref_on_end_json:
  "on_end (ref_runtime net) \<lparr>statusCode = code, body = text, headers = [(''content-type'', ''application/json'')]\<rparr>
     = \<lparr>statusCode = code, body = (case ref_JSON_parse text of Inl m \<Rightarrow> JStr text | Inr v \<Rightarrow> v),
        headers = [(''content-type'', ''application/json'')]\<rparr>"
  by (simp add: on_end_def ref_runtime_def Let_def split: sum.splits)

text \<open>
  Claim C7. Whatever the network answers, \<open>makeHttpRequest\<close> resolves, with the status
  and headers of the response and the body the parsing policy gives: for an
  event-stream response the remainder of the first \<open>data: \<close> line parsed as JSON (later
  lines are never looked at), the whole body parsed as JSON when there is no such line
  or its parse fails, and the raw text when JSON parsing fails entirely.
\<close>

theorem sse_parsing_policy:
  assumes "json_rejects_event_text rt"
    and "new_URL rt url = Inr u"
    and "transport rt (reqOptions u opts rt) = Inr res"
  shows "makeHttpRequest rt url opts =
           ([reqOptions u opts rt],
            Inr \<lparr>statusCode = statusCode res,
                 body = parse_policy rt (content_type res) (body res),
                 headers = headers res\<rparr>)"
  using assms by (simp add: makeHttpRequest_resolved on_end_policy)

theorem sse_parsing_policy_witness:
  "snd (makeHttpRequest (ref_runtime (net_reply 200 ''text/event-stream'' sse_body))
          ''https://mcp.example/mcp'' (alt_options (JObj []))) =
     Inr \<lparr>statusCode = 200,
          body = JObj [(''result'', JObj [(''ok'', JNum (Num 1))])],
          headers = [(''content-type'', ''text/event-stream'')]\<rparr>"
proof -
  have "parse_policy (ref_runtime (net_reply 200 ''text/event-stream'' sse_body))
          ''text/event-stream'' sse_body = JObj [(''result'', JObj [(''ok'', JNum (Num 1))])]"
    by (simp add: parse_policy_def sse_body_def trim_def js_ws_def ref_runtime_def
          ref_JSON_parse_def ref_JSON_texts_def)
  then show ?thesis
    using sse_parsing_policy[OF ref_rejects_event_text ref_new_URL_mcp ref_transport_reply,
            of 200 "''text/event-stream''" sse_body "alt_options (JObj [])"]
    by (simp add: content_type_def)
qed

section \<open>Tool calls\<close>


lemma reqOptions_raw_arguments:
  "w_payload (reqOptions u (alt_options (JObj kvs)) rt) = Some (JSON_stringify rt (JObj kvs))"
  "w_method (reqOptions u (alt_options a) rt) = ''POST''"
  by (simp_all add: reqOptions_def alt_options_def)

lemma callMcpTool_rejected:
  "makeHttpRequest rt (MCP_SERVER_URL rt @ ''/mcp'') (mcp_options rt n a) = (sent, Inl e) \<Longrightarrow>
   callMcpTool rt n a = (sent, Inl (rethrow e))"
  by (simp add: callMcpTool_def)

text \<open>HTTP 200: a truthy \<open>result\<close> field is unwrapped; otherwise the body itself is returned.\<close>

lemma callMcpTool_unwraps_result:
  assumes "makeHttpRequest rt (MCP_SERVER_URL rt @ ''/mcp'') (mcp_options rt n a) = (sent, Inr response)"
    and "statusCode response = 200"
    and "js_get (body response) ''result'' = Some r" and "truthy r"
  shows "callMcpTool rt n a = (sent, Inr r)"
  using assms by (simp add: callMcpTool_def js_read_def)

lemma callMcpTool_returns_body:
  assumes "makeHttpRequest rt (MCP_SERVER_URL rt @ ''/mcp'') (mcp_options rt n a) = (sent, Inr response)"
    and "statusCode response = 200"
    and "js_get (body response) ''result'' = Some r" and "\<not> truthy r"
  shows "callMcpTool rt n a = (sent, Inr (body response))"
  using assms by (simp add: callMcpTool_def js_read_def)

text \<open>A body that is \<open>null\<close>: the property read throws, whatever the status.\<close>

lemma callMcpTool_null_body:
  assumes "makeHttpRequest rt (MCP_SERVER_URL rt @ ''/mcp'') (mcp_options rt n a) = (sent, Inr response)"
    and "body response = JNull"
  shows "callMcpTool rt n a =
           (sent, Inl (rethrow (Exn TypeErrorK
              (msg_read_nullish rt JNull (if statusCode response = 200 then ''result'' else ''error'')))))"
  using assms by (simp add: callMcpTool_def js_read_def)

text \<open>
  A status other than 200 with a truthy \<open>error\<close> whose \<open>code\<close> is \<open>-32600\<close>: the raw
  tool arguments are posted to \<open>/tools/<toolName>/call\<close>, once, and the outcome of that
  call is the outcome of the tool call.
\<close>

lemma callMcpTool_retries:
  assumes "makeHttpRequest rt (MCP_SERVER_URL rt @ ''/mcp'') (mcp_options rt n a) = (sent, Inr response)"
    and "statusCode response \<noteq> 200"
    and "js_get (body response) ''error'' = Some err" and "truthy err"
    and "js_get err ''code'' = Some (JNum (Num (- 32600)))"
  shows "callMcpTool rt n a =
           (case makeHttpRequest rt (MCP_SERVER_URL rt @ ''/tools/'' @ n @ ''/call'') (alt_options a) of
              (sent', Inl e) \<Rightarrow> (sent @ sent', Inl (rethrow e))
            | (sent', Inr response') \<Rightarrow>
                if statusCode response' = 200 then (sent @ sent', Inr (body response'))
                else (sent @ sent', Inl (rethrow (Exn ErrorK
                        (''Error en m'' @ [CHR 0xE9] @ ''todo alternativo: '' @ JSON_stringify rt (body response'))))))"
  using assms
  by (simp add: callMcpTool_def callMcpAlternative_def js_read_def Let_def split: prod.splits sum.splits)

lemma callMcpTool_retry_sends_two:
  assumes "new_URL rt (MCP_SERVER_URL rt @ ''/mcp'') = Inr u"
    and "transport rt (reqOptions u (mcp_options rt n a) rt) = Inr res"
    and "statusCode res \<noteq> 200"
    and "js_get (body (on_end rt res)) ''error'' = Some err" and "truthy err"
    and "js_get err ''code'' = Some (JNum (Num (- 32600)))"
    and "new_URL rt (MCP_SERVER_URL rt @ ''/tools/'' @ n @ ''/call'') = Inr u'"
  shows "fst (callMcpTool rt n a) =
           [reqOptions u (mcp_options rt n a) rt, reqOptions u' (alt_options a) rt]"
proof -
  have st: "statusCode (on_end rt res) = statusCode res"
    by (simp add: on_end_def Let_def split: sum.splits)
  have "callMcpTool rt n a =
           (case makeHttpRequest rt (MCP_SERVER_URL rt @ ''/tools/'' @ n @ ''/call'') (alt_options a) of
              (sent', Inl e) \<Rightarrow> ([reqOptions u (mcp_options rt n a) rt] @ sent', Inl (rethrow e))
            | (sent', Inr response') \<Rightarrow>
                if statusCode response' = 200 then ([reqOptions u (mcp_options rt n a) rt] @ sent', Inr (body response'))
                else ([reqOptions u (mcp_options rt n a) rt] @ sent', Inl (rethrow (Exn ErrorK
                        (''Error en m'' @ [CHR 0xE9] @ ''todo alternativo: '' @ JSON_stringify rt (body response'))))))"
    using assms(3-6) st
    by (intro callMcpTool_retries[OF makeHttpRequest_resolved[OF assms(1,2)]]) simp_all
  moreover have "fst (makeHttpRequest rt (MCP_SERVER_URL rt @ ''/tools/'' @ n @ ''/call'') (alt_options a))
                   = [reqOptions u' (alt_options a) rt]"
    using assms(7) by (simp add: makeHttpRequest_sent)
  ultimately show ?thesis
    by (auto split: prod.splits sum.splits if_splits)
qed

text \<open>Any other status and body that is not \<open>null\<close>: the call fails with the serialised body.\<close>

lemma callMcpTool_fails_directly:
  assumes "makeHttpRequest rt (MCP_SERVER_URL rt @ ''/mcp'') (mcp_options rt n a) = (sent, Inr response)"
    and "statusCode response \<noteq> 200"
    and "js_get (body response) ''error'' = Some err"
    and "\<not> (truthy err \<and> js_get err ''code'' = Some (JNum (Num (- 32600))))"
  shows "callMcpTool rt n a =
           (sent, Inl (Exn ErrorK
              (''Error conectando con MCP: Error MCP: '' @ JSON_stringify rt (body response))))"
  using assms
  by (auto simp add: callMcpTool_def js_read_def rethrow_def)


text \<open>
  Two exchanges with mocked backends. A backend that rejects the JSON-RPC call with
  code \<open>-32600\<close> and answers the alternative endpoint: two requests are sent, the
  envelope to \<open>/mcp\<close> and the raw arguments to \<open>/tools/get_classroom_info/call\<close>, and
  the body of the second answer is returned. A backend that answers with an
  event-stream frame: the \<open>result\<close> of its \<open>data: \<close> line is returned.
\<close>

lemma ref_transport_two:
  "transport (ref_runtime (net_two first second)) req =
     (let (code, text) = (if w_path req = ''/mcp'' then first else second)
      in Inr \<lparr>statusCode = code, body = text, headers = [(''content-type'', ''application/json'')]\<rparr>)"
  by (simp add: ref_runtime_def net_two_def)

lemma ref_new_URL_tool:
  "new_URL (ref_runtime net) ''https://mcp.example/tools/get_classroom_info/call'' =
     Inr \<lparr>protocol = ''https:'', hostname = ''mcp.example'', port = [],
          pathname = ''/tools/get_classroom_info/call'', search = []\<rparr>"
  by (simp add: ref_runtime_def ref_new_URL_def Let_def)

lemma retry_example:
  "snd (callMcpTool (ref_runtime (net_two (400, ''{\"error\":{\"code\":-32600}}'') (200, ''{\"ok\":1}'')))
          ''get_classroom_info'' (JObj [(''classroom_id'', JStr ''c1'')]))
     = Inr (JObj [(''ok'', JNum (Num 1))]) \<and>
   map w_path (fst (callMcpTool (ref_runtime (net_two (400, ''{\"error\":{\"code\":-32600}}'') (200, ''{\"ok\":1}'')))
          ''get_classroom_info'' (JObj [(''classroom_id'', JStr ''c1'')])))
     = [''/mcp'', ''/tools/get_classroom_info/call''] \<and>
   map w_payload (fst (callMcpTool (ref_runtime (net_two (400, ''{\"error\":{\"code\":-32600}}'') (200, ''{\"ok\":1}'')))
          ''get_classroom_info'' (JObj [(''classroom_id'', JStr ''c1'')])))
     = [Some (JSON_stringify (ref_runtime (net_two (400, ''{\"error\":{\"code\":-32600}}'') (200, ''{\"ok\":1}'')))
                (mcpRequest (ref_runtime (net_two (400, ''{\"error\":{\"code\":-32600}}'') (200, ''{\"ok\":1}'')))
                   ''get_classroom_info'' (JObj [(''classroom_id'', JStr ''c1'')]))),
        Some (JSON_stringify (ref_runtime (net_two (400, ''{\"error\":{\"code\":-32600}}'') (200, ''{\"ok\":1}'')))
                (JObj [(''classroom_id'', JStr ''c1'')]))]"
  by (simp add: callMcpTool_def callMcpAlternative_def makeHttpRequest_def ref_MCP_SERVER_URL
        ref_new_URL_mcp ref_new_URL_tool ref_transport_two reqOptions_def mcp_options_def alt_options_def
        mcpRequest_def ref_on_end_json ref_JSON_parse_def ref_JSON_texts_def js_read_def Let_def)

lemma sse_call_example:
  "snd (callMcpTool (ref_runtime (net_reply 200 ''text/event-stream'' sse_body))
          ''get_classroom_info'' (JObj [(''classroom_id'', JStr ''c1'')]))
     = Inr (JObj [(''ok'', JNum (Num 1))])"
  by (simp add: callMcpTool_def ref_MCP_SERVER_URL ref_makeHttpRequest_mcp
        on_end_policy[OF ref_rejects_event_text] content_type_def parse_policy_def sse_body_def trim_def
        js_ws_def js_read_def)
     (simp add: ref_runtime_def ref_JSON_parse_def ref_JSON_texts_def)

text \<open>
  Claim C5, at a backend that answers HTTP 200 with the body \<open>{"result":0}\<close>: the body
  contains a \<open>result\<close> field, yet the tool call returns the whole body and not the
  field, because the source tests the field for truthiness.
\<close>

theorem falsy_result_is_not_unwrapped:
  "snd (callMcpTool (ref_runtime (net_reply 200 ''application/json'' ''{\"result\":0}''))
          ''get_classroom_info'' (JObj [(''classroom_id'', JStr ''c1'')]))
     = Inr (JObj [(''result'', JNum (Num 0))]) \<and>
   js_get (JObj [(''result'', JNum (Num 0))]) ''result'' = Some (JNum (Num 0))"
  by (simp add: callMcpTool_def ref_MCP_SERVER_URL ref_makeHttpRequest_mcp ref_on_end_json
        ref_JSON_parse_def ref_JSON_texts_def js_read_def)

text \<open>
  Claim C6, at a backend that answers HTTP 502 with the body \<open>null\<close>: the call fails
  directly and sends nothing more, but the error that reaches the handler is the
  engine's TypeError for reading \<open>error\<close> of \<open>null\<close>, not the error built from the
  serialised body.
\<close>

theorem null_error_body_is_not_serialised:
  "snd (callMcpTool (ref_runtime (net_reply 502 ''application/json'' ''null''))
          ''get_classroom_info'' (JObj [(''classroom_id'', JStr ''c1'')]))
     = Inl (Exn ErrorK (''Error conectando con MCP: Cannot read properties of null (reading ''
                          @ [CHR 0x27] @ ''error'' @ [CHR 0x27] @ '')'')) \<and>
   length (fst (callMcpTool (ref_runtime (net_reply 502 ''application/json'' ''null''))
          ''get_classroom_info'' (JObj [(''classroom_id'', JStr ''c1'')]))) = 1 \<and>
   JSON_stringify (ref_runtime (net_reply 502 ''application/json'' ''null'')) JNull = ''null''"
  apply (simp add: callMcpTool_def ref_MCP_SERVER_URL ref_makeHttpRequest_mcp ref_on_end_json
        ref_JSON_parse_def ref_JSON_texts_def js_read_def rethrow_def)
  apply (simp add: ref_runtime_def ref_msg_read_nullish_def)
  done

section \<open>The handlers\<close>

lemma required_string_Inl:
  "required_string rt v = Inl e \<Longrightarrow>
     truthy v \<and> \<not> js_typeof_string v \<and> e = Exn TypeErrorK (msg_not_function rt v ''trim'')"
  by (cases v) (auto simp: required_string_def js_typeof_string_def split: if_splits)

lemma required_string_Some:
  "required_string rt v = Inr (Some s) \<Longrightarrow> v = JStr s \<and> trim s \<noteq> []"
  by (cases v) (auto simp: required_string_def split: if_splits)

lemma shape_reject:
  "error_named kvs \<Longrightarrow> map_of kvs ''timestamp'' = None \<Longrightarrow> shape op rt params (bad_request kvs)"
  by (auto simp: shape_def rejects_def)

lemma shape_call:
  "n = tool_name op \<Longrightarrow> hint_ok op hint \<Longrightarrow> nesting_ok op args \<Longrightarrow>
   shape op rt params (try_call rt n args md hint)"
  by (auto simp: shape_def calls_tool_def)

lemma shape_guard:
  assumes "k \<in> set (trimmed_params op)"
    and "shape op rt params (bad_request kvs)"
    and "\<And>s. param params k = JStr s \<Longrightarrow> trim s \<noteq> [] \<Longrightarrow> shape op rt params (K s)"
  shows "shape op rt params
           (case required_string rt (param params k) of
              Inl e \<Rightarrow> ([], Inl e)
            | Inr None \<Rightarrow> bad_request kvs
            | Inr (Some s) \<Rightarrow> K s)"
proof (cases "required_string rt (param params k)")
  case (Inl e)
  with assms(1) required_string_Inl[OF Inl] show ?thesis
    by (auto simp: shape_def trim_throws_def)
next
  case (Inr r)
  show ?thesis
  proof (cases r)
    case None
    with Inr assms(2) show ?thesis by simp
  next
    case (Some s)
    with Inr required_string_Some[of rt "param params k" s] assms(3)[of s] show ?thesis by simp
  qed
qed

lemma shape_if:
  "(c \<Longrightarrow> shape op rt params A) \<Longrightarrow> (\<not> c \<Longrightarrow> shape op rt params B) \<Longrightarrow>
   shape op rt params (if c then A else B)"
  by simp

lemma shape_FiscalAdvice:
  "shape FiscalAdvice rt params (handleMcpFiscalAdvice rt params)"
  unfolding handleMcpFiscalAdvice_def Let_def
  by (intro shape_guard shape_reject shape_call shape_if)
     (simp_all add: error_named_def hint_ok_def nesting_ok_def)

lemma shape_GenerateEmbedding:
  "shape GenerateEmbedding rt params (handleMcpGenerateEmbedding rt params)"
  unfolding handleMcpGenerateEmbedding_def Let_def
  by (intro shape_guard shape_reject shape_call shape_if)
     (simp_all add: error_named_def hint_ok_def nesting_ok_def)

lemma shape_StoreDocument:
  "shape StoreDocument rt params (handleMcpStoreDocument rt params)"
  unfolding handleMcpStoreDocument_def Let_def
  by (intro shape_guard shape_reject shape_call shape_if)
     (simp_all add: error_named_def hint_ok_def nesting_ok_def)

lemma shape_SearchSimilarDocuments:
  "shape SearchSimilarDocuments rt params (handleMcpSearchSimilarDocuments rt params)"
  unfolding handleMcpSearchSimilarDocuments_def Let_def
  by (intro shape_guard shape_reject shape_call shape_if)
     (simp_all add: error_named_def hint_ok_def nesting_ok_def)

lemma shape_StoreDocumentChunk:
  "shape StoreDocumentChunk rt params (handleMcpStoreDocumentChunk rt params)"
  unfolding handleMcpStoreDocumentChunk_def Let_def
  by (intro shape_guard shape_reject shape_call shape_if)
     (simp_all add: error_named_def hint_ok_def nesting_ok_def)

lemma shape_SearchSimilarChunks:
  "shape SearchSimilarChunks rt params (handleMcpSearchSimilarChunks rt params)"
  unfolding handleMcpSearchSimilarChunks_def Let_def
  by (intro shape_guard shape_reject shape_call shape_if)
     (simp_all add: error_named_def hint_ok_def nesting_ok_def)

lemma shape_ChatWithClassroom:
  "shape ChatWithClassroom rt params (handleMcpChatWithClassroom rt params)"
  unfolding handleMcpChatWithClassroom_def Let_def
  by (intro shape_guard shape_reject shape_call shape_if)
     (simp_all add: error_named_def hint_ok_def nesting_ok_def)

lemma shape_GetClassroomInfo:
  "shape GetClassroomInfo rt params (handleMcpGetClassroomInfo rt params)"
  unfolding handleMcpGetClassroomInfo_def Let_def
  by (intro shape_guard shape_reject shape_call shape_if)
     (simp_all add: error_named_def hint_ok_def nesting_ok_def)

lemma shape_CreateEmbedding:
  "shape CreateEmbedding rt params (handleMcpCreateEmbedding rt params)"
  unfolding handleMcpCreateEmbedding_def Let_def
  by (intro shape_guard shape_reject shape_call shape_if)
     (simp_all add: error_named_def hint_ok_def nesting_ok_def)

lemma shape_ProfessorAssistant:
  "shape ProfessorAssistant rt params (handleMcpProfessorAssistant rt params)"
  unfolding handleMcpProfessorAssistant_def Let_def
  by (intro shape_guard shape_reject shape_call shape_if)
     (simp_all add: error_named_def hint_ok_def nesting_ok_def)

lemma shape_GenerateResources:
  "shape GenerateResources rt params (handleMcpGenerateResources rt params)"
  unfolding handleMcpGenerateResources_def Let_def
  by (intro shape_guard shape_reject shape_call shape_if)
     (simp_all add: error_named_def hint_ok_def nesting_ok_def split: jsval.splits)

lemma shape_AnalyzeUserContext:
  "shape AnalyzeUserContext rt params (handleMcpAnalyzeUserContext rt params)"
  unfolding handleMcpAnalyzeUserContext_def Let_def
  by (intro shape_guard shape_reject shape_call shape_if)
     (simp_all add: error_named_def hint_ok_def nesting_ok_def)

text \<open>Every handler ends in one of the three ways.\<close>

lemma mcpBridge_shape: "shape op rt params (mcpBridge op rt params)"
  by (cases op)
     (simp_all add: shape_FiscalAdvice shape_GenerateEmbedding shape_StoreDocument
        shape_SearchSimilarDocuments shape_StoreDocumentChunk shape_SearchSimilarChunks
        shape_ChatWithClassroom shape_GetClassroomInfo shape_CreateEmbedding
        shape_ProfessorAssistant shape_GenerateResources shape_AnalyzeUserContext)

lemma try_call_cases:
  obtains (ok) sent result where
      "callMcpTool rt n a = (sent, Inr result)"
      "try_call rt n a md hint =
         (sent, Inr \<lparr>statusCode = 200,
                     body = JObj ([(''success'', JBool True), (''data'', result),
                                   (''source'', JStr ''mcp_server''), (''timestamp'', timestamp rt)] @ md)\<rparr>)"
  | (failed) sent e where
      "callMcpTool rt n a = (sent, Inl e)"
      "try_call rt n a md hint =
         (sent, Inr \<lparr>statusCode = 500,
                     body = JObj ([(''error'', JStr (message e)), (''timestamp'', timestamp rt)] @ hint)\<rparr>)"
proof (cases "callMcpTool rt n a")
  case (Pair sent res)
  then show ?thesis
    by (cases res) (auto simp: try_call_def intro: ok failed)
qed


lemma try_call_status:
  "\<exists>r. snd (try_call rt n a md hint) = Inr r \<and> (statusCode r = 200 \<or> statusCode r = 500)"
  by (rule try_call_cases[of rt n a md hint]) simp_all



lemma ref_net_down_call:
  "callMcpTool (ref_runtime net_down) n a =
     ([reqOptions \<lparr>protocol = ''https:'', hostname = ''mcp.example'', port = [], pathname = ''/mcp'', search = []\<rparr>
         (mcp_options (ref_runtime net_down) n a) (ref_runtime net_down)],
      Inl (Exn ErrorK ''Error conectando con MCP: connect ECONNREFUSED''))"
proof -
  have "transport (ref_runtime net_down) req = Inl ''connect ECONNREFUSED''" for req
    by (simp add: ref_runtime_def net_down_def)
  then show ?thesis
    by (simp add: callMcpTool_def makeHttpRequest_def ref_MCP_SERVER_URL ref_new_URL_mcp rethrow_def)
qed



text \<open>A fiscal-advice request against a backend that answers \<open>{"result":{"advice":"x"}}\<close>.\<close>

lemma fiscal_example:
  "snd (handleMcpFiscalAdvice (ref_runtime (net_reply 200 ''application/json'' ''{\"result\":{\"advice\":\"x\"}}''))
          [(''actividad'', JStr ''venta de ropa'')])
     = Inr \<lparr>statusCode = 200,
            body = JObj [(''success'', JBool True),
                         (''data'', JObj [(''advice'', JStr ''x'')]),
                         (''source'', JStr ''mcp_server''),
                         (''timestamp'', JStr ''2023-11-14T22:13:20.000Z'')]\<rparr>"
  apply (simp add: handleMcpFiscalAdvice_def param_def try_call_def callMcpTool_def ref_MCP_SERVER_URL
        ref_makeHttpRequest_mcp ref_on_end_json ref_JSON_parse_def ref_JSON_texts_def js_read_def timestamp_def)
  apply (simp add: ref_runtime_def)
  done



section \<open>Validation\<close>

lemma trim_Nil [simp]: "trim [] = []"
  by (simp add: trim_def)

lemma required_string_nonblank:
  "nonblank_string v \<Longrightarrow> required_string rt v = Inr (Some (the_str v))"
  by (cases v) (auto simp: nonblank_string_def required_string_def the_str_def)

lemma required_string_missing:
  "missing_or_blank v \<Longrightarrow> required_string rt v = Inr None"
  by (cases v) (auto simp: missing_or_blank_def required_string_def)

lemma rejectionI:
  "out = bad_request kvs \<Longrightarrow>
   (case map_of kvs ''error'' of Some (JStr m) \<Rightarrow> js_includes m ([CHR 0x22] @ k @ [CHR 0x22]) | _ \<Rightarrow> False) \<Longrightarrow>
   map_of kvs ''required'' = Some (strs (required_fields op)) \<Longrightarrow>
   k \<in> set (required_fields op) \<Longrightarrow>
   map_of kvs ''optional'' = map_option strs (optional_listing op k) \<Longrightarrow>
   (if op = FiscalAdvice then map_of kvs ''hint'' = None
    else (case map_of kvs ''hint'' of Some (JStr h) \<Rightarrow> h \<noteq> [] | _ \<Rightarrow> False)) \<Longrightarrow>
   rejection op k out"
  unfolding rejection_def bad_request_def
  by (intro exI[of _ kvs]) (auto split: option.splits jsval.splits if_splits)

lemma rejected_FiscalAdvice_0:
  "string_missing params (Truthy ''actividad'') \<Longrightarrow>
   rejection FiscalAdvice ''actividad'' (handleMcpFiscalAdvice rt params)"
  by (rule rejectionI,
      auto simp add: handleMcpFiscalAdvice_def required_string_missing required_string_nonblank
        the_str_def strs_def split: jsval.splits)

lemma rejected_FiscalAdvice:
  assumes "i < length (guards FiscalAdvice)"
    and "\<forall>j<i. guard_passes params (guards FiscalAdvice ! j)"
    and "string_missing params (guards FiscalAdvice ! i)"
  shows "rejection FiscalAdvice (guard_param (guards FiscalAdvice ! i)) (handleMcpFiscalAdvice rt params)"
proof -
  from assms(1) consider (c0) "i = 0"
    by (auto simp: less_Suc_eq)
  then show ?thesis
  proof cases
    case c0
    with assms(3)  show ?thesis
      by (simp add: rejected_FiscalAdvice_0)
  qed
qed

lemma rejected_GenerateEmbedding_0:
  "string_missing params (NonBlank ''text'') \<Longrightarrow>
   rejection GenerateEmbedding ''text'' (handleMcpGenerateEmbedding rt params)"
  by (rule rejectionI,
      auto simp add: handleMcpGenerateEmbedding_def required_string_missing required_string_nonblank
        the_str_def strs_def split: jsval.splits)

lemma rejected_GenerateEmbedding:
  assumes "i < length (guards GenerateEmbedding)"
    and "\<forall>j<i. guard_passes params (guards GenerateEmbedding ! j)"
    and "string_missing params (guards GenerateEmbedding ! i)"
  shows "rejection GenerateEmbedding (guard_param (guards GenerateEmbedding ! i)) (handleMcpGenerateEmbedding rt params)"
proof -
  from assms(1) consider (c0) "i = 0"
    by (auto simp: less_Suc_eq)
  then show ?thesis
  proof cases
    case c0
    with assms(3)  show ?thesis
      by (simp add: rejected_GenerateEmbedding_0)
  qed
qed

lemma rejected_StoreDocument_0:
  "string_missing params (NonBlank ''text'') \<Longrightarrow>
   rejection StoreDocument ''text'' (handleMcpStoreDocument rt params)"
  by (rule rejectionI,
      auto simp add: handleMcpStoreDocument_def required_string_missing required_string_nonblank
        the_str_def strs_def split: jsval.splits)

lemma rejected_StoreDocument:
  assumes "i < length (guards StoreDocument)"
    and "\<forall>j<i. guard_passes params (guards StoreDocument ! j)"
    and "string_missing params (guards StoreDocument ! i)"
  shows "rejection StoreDocument (guard_param (guards StoreDocument ! i)) (handleMcpStoreDocument rt params)"
proof -
  from assms(1) consider (c0) "i = 0"
    by (auto simp: less_Suc_eq)
  then show ?thesis
  proof cases
    case c0
    with assms(3)  show ?thesis
      by (simp add: rejected_StoreDocument_0)
  qed
qed

lemma rejected_SearchSimilarDocuments_0:
  "string_missing params (NonBlank ''query_text'') \<Longrightarrow>
   rejection SearchSimilarDocuments ''query_text'' (handleMcpSearchSimilarDocuments rt params)"
  by (rule rejectionI,
      auto simp add: handleMcpSearchSimilarDocuments_def required_string_missing required_string_nonblank
        the_str_def strs_def split: jsval.splits)

lemma rejected_SearchSimilarDocuments:
  assumes "i < length (guards SearchSimilarDocuments)"
    and "\<forall>j<i. guard_passes params (guards SearchSimilarDocuments ! j)"
    and "string_missing params (guards SearchSimilarDocuments ! i)"
  shows "rejection SearchSimilarDocuments (guard_param (guards SearchSimilarDocuments ! i)) (handleMcpSearchSimilarDocuments rt params)"
proof -
  from assms(1) consider (c0) "i = 0"
    by (auto simp: less_Suc_eq)
  then show ?thesis
  proof cases
    case c0
    with assms(3)  show ?thesis
      by (simp add: rejected_SearchSimilarDocuments_0)
  qed
qed

lemma rejected_StoreDocumentChunk_0:
  "string_missing params (NonBlank ''classroom_document_id'') \<Longrightarrow>
   rejection StoreDocumentChunk ''classroom_document_id'' (handleMcpStoreDocumentChunk rt params)"
  by (rule rejectionI,
      auto simp add: handleMcpStoreDocumentChunk_def required_string_missing required_string_nonblank
        the_str_def strs_def split: jsval.splits)

lemma rejected_StoreDocumentChunk_2:
  "guard_passes params (NonBlank ''classroom_document_id'') \<Longrightarrow>
   guard_passes params (Present ''chunk_index'') \<Longrightarrow>
   string_missing params (NonBlank ''content'') \<Longrightarrow>
   rejection StoreDocumentChunk ''content'' (handleMcpStoreDocumentChunk rt params)"
  by (rule rejectionI,
      auto simp add: handleMcpStoreDocumentChunk_def required_string_missing required_string_nonblank
        the_str_def strs_def split: jsval.splits)

lemma rejected_StoreDocumentChunk:
  assumes "i < length (guards StoreDocumentChunk)"
    and "\<forall>j<i. guard_passes params (guards StoreDocumentChunk ! j)"
    and "string_missing params (guards StoreDocumentChunk ! i)"
  shows "rejection StoreDocumentChunk (guard_param (guards StoreDocumentChunk ! i)) (handleMcpStoreDocumentChunk rt params)"
proof -
  from assms(1) consider (c0) "i = 0" | (c1) "i = 1" | (c2) "i = 2"
    by (auto simp: less_Suc_eq)
  then show ?thesis
  proof cases
    case c0
    with assms(3)  show ?thesis
      by (simp add: rejected_StoreDocumentChunk_0)
  next
    case c1
    with assms(3) show ?thesis by simp
  next
    case c2
    with assms(3) assms(2)[rule_format, of 0] assms(2)[rule_format, of 1] show ?thesis
      by (simp add: rejected_StoreDocumentChunk_2)
  qed
qed

lemma rejected_SearchSimilarChunks_0:
  "string_missing params (NonBlank ''query_text'') \<Longrightarrow>
   rejection SearchSimilarChunks ''query_text'' (handleMcpSearchSimilarChunks rt params)"
  by (rule rejectionI,
      auto simp add: handleMcpSearchSimilarChunks_def required_string_missing required_string_nonblank
        the_str_def strs_def split: jsval.splits)

lemma rejected_SearchSimilarChunks_1:
  "guard_passes params (NonBlank ''query_text'') \<Longrightarrow>
   string_missing params (NonBlank ''classroom_id'') \<Longrightarrow>
   rejection SearchSimilarChunks ''classroom_id'' (handleMcpSearchSimilarChunks rt params)"
  by (rule rejectionI,
      auto simp add: handleMcpSearchSimilarChunks_def required_string_missing required_string_nonblank
        the_str_def strs_def split: jsval.splits)

lemma rejected_SearchSimilarChunks:
  assumes "i < length (guards SearchSimilarChunks)"
    and "\<forall>j<i. guard_passes params (guards SearchSimilarChunks ! j)"
    and "string_missing params (guards SearchSimilarChunks ! i)"
  shows "rejection SearchSimilarChunks (guard_param (guards SearchSimilarChunks ! i)) (handleMcpSearchSimilarChunks rt params)"
proof -
  from assms(1) consider (c0) "i = 0" | (c1) "i = 1"
    by (auto simp: less_Suc_eq)
  then show ?thesis
  proof cases
    case c0
    with assms(3)  show ?thesis
      by (simp add: rejected_SearchSimilarChunks_0)
  next
    case c1
    with assms(3) assms(2)[rule_format, of 0] show ?thesis
      by (simp add: rejected_SearchSimilarChunks_1)
  qed
qed

lemma rejected_ChatWithClassroom_0:
  "string_missing params (NonBlank ''message'') \<Longrightarrow>
   rejection ChatWithClassroom ''message'' (handleMcpChatWithClassroom rt params)"
  by (rule rejectionI,
      auto simp add: handleMcpChatWithClassroom_def required_string_missing required_string_nonblank
        the_str_def strs_def split: jsval.splits)

lemma rejected_ChatWithClassroom_1:
  "guard_passes params (NonBlank ''message'') \<Longrightarrow>
   string_missing params (NonBlank ''classroom_id'') \<Longrightarrow>
   rejection ChatWithClassroom ''classroom_id'' (handleMcpChatWithClassroom rt params)"
  by (rule rejectionI,
      auto simp add: handleMcpChatWithClassroom_def required_string_missing required_string_nonblank
        the_str_def strs_def split: jsval.splits)

lemma rejected_ChatWithClassroom:
  assumes "i < length (guards ChatWithClassroom)"
    and "\<forall>j<i. guard_passes params (guards ChatWithClassroom ! j)"
    and "string_missing params (guards ChatWithClassroom ! i)"
  shows "rejection ChatWithClassroom (guard_param (guards ChatWithClassroom ! i)) (handleMcpChatWithClassroom rt params)"
proof -
  from assms(1) consider (c0) "i = 0" | (c1) "i = 1"
    by (auto simp: less_Suc_eq)
  then show ?thesis
  proof cases
    case c0
    with assms(3)  show ?thesis
      by (simp add: rejected_ChatWithClassroom_0)
  next
    case c1
    with assms(3) assms(2)[rule_format, of 0] show ?thesis
      by (simp add: rejected_ChatWithClassroom_1)
  qed
qed

lemma rejected_GetClassroomInfo_0:
  "string_missing params (NonBlank ''classroom_id'') \<Longrightarrow>
   rejection GetClassroomInfo ''classroom_id'' (handleMcpGetClassroomInfo rt params)"
  by (rule rejectionI,
      auto simp add: handleMcpGetClassroomInfo_def required_string_missing required_string_nonblank
        the_str_def strs_def split: jsval.splits)

lemma rejected_GetClassroomInfo:
  assumes "i < length (guards GetClassroomInfo)"
    and "\<forall>j<i. guard_passes params (guards GetClassroomInfo ! j)"
    and "string_missing params (guards GetClassroomInfo ! i)"
  shows "rejection GetClassroomInfo (guard_param (guards GetClassroomInfo ! i)) (handleMcpGetClassroomInfo rt params)"
proof -
  from assms(1) consider (c0) "i = 0"
    by (auto simp: less_Suc_eq)
  then show ?thesis
  proof cases
    case c0
    with assms(3)  show ?thesis
      by (simp add: rejected_GetClassroomInfo_0)
  qed
qed

lemma rejected_CreateEmbedding_0:
  "string_missing params (NonBlank ''text'') \<Longrightarrow>
   rejection CreateEmbedding ''text'' (handleMcpCreateEmbedding rt params)"
  by (rule rejectionI,
      auto simp add: handleMcpCreateEmbedding_def required_string_missing required_string_nonblank
        the_str_def strs_def split: jsval.splits)

lemma rejected_CreateEmbedding_1:
  "guard_passes params (NonBlank ''text'') \<Longrightarrow>
   string_missing params (NonBlank ''classroom_id'') \<Longrightarrow>
   rejection CreateEmbedding ''classroom_id'' (handleMcpCreateEmbedding rt params)"
  by (rule rejectionI,
      auto simp add: handleMcpCreateEmbedding_def required_string_missing required_string_nonblank
        the_str_def strs_def split: jsval.splits)

lemma rejected_CreateEmbedding:
  assumes "i < length (guards CreateEmbedding)"
    and "\<forall>j<i. guard_passes params (guards CreateEmbedding ! j)"
    and "string_missing params (guards CreateEmbedding ! i)"
  shows "rejection CreateEmbedding (guard_param (guards CreateEmbedding ! i)) (handleMcpCreateEmbedding rt params)"
proof -
  from assms(1) consider (c0) "i = 0" | (c1) "i = 1"
    by (auto simp: less_Suc_eq)
  then show ?thesis
  proof cases
    case c0
    with assms(3)  show ?thesis
      by (simp add: rejected_CreateEmbedding_0)
  next
    case c1
    with assms(3) assms(2)[rule_format, of 0] show ?thesis
      by (simp add: rejected_CreateEmbedding_1)
  qed
qed

lemma rejected_ProfessorAssistant_0:
  "string_missing params (NonBlank ''question'') \<Longrightarrow>
   rejection ProfessorAssistant ''question'' (handleMcpProfessorAssistant rt params)"
  by (rule rejectionI,
      auto simp add: handleMcpProfessorAssistant_def required_string_missing required_string_nonblank
        the_str_def strs_def split: jsval.splits)

lemma rejected_ProfessorAssistant_1:
  "guard_passes params (NonBlank ''question'') \<Longrightarrow>
   string_missing params (NonBlank ''classroom_id'') \<Longrightarrow>
   rejection ProfessorAssistant ''classroom_id'' (handleMcpProfessorAssistant rt params)"
  by (rule rejectionI,
      auto simp add: handleMcpProfessorAssistant_def required_string_missing required_string_nonblank
        the_str_def strs_def split: jsval.splits)

lemma rejected_ProfessorAssistant:
  assumes "i < length (guards ProfessorAssistant)"
    and "\<forall>j<i. guard_passes params (guards ProfessorAssistant ! j)"
    and "string_missing params (guards ProfessorAssistant ! i)"
  shows "rejection ProfessorAssistant (guard_param (guards ProfessorAssistant ! i)) (handleMcpProfessorAssistant rt params)"
proof -
  from assms(1) consider (c0) "i = 0" | (c1) "i = 1"
    by (auto simp: less_Suc_eq)
  then show ?thesis
  proof cases
    case c0
    with assms(3)  show ?thesis
      by (simp add: rejected_ProfessorAssistant_0)
  next
    case c1
    with assms(3) assms(2)[rule_format, of 0] show ?thesis
      by (simp add: rejected_ProfessorAssistant_1)
  qed
qed

lemma rejected_GenerateResources_0:
  "string_missing params (NonBlank ''classroom_id'') \<Longrightarrow>
   rejection GenerateResources ''classroom_id'' (handleMcpGenerateResources rt params)"
  by (rule rejectionI,
      auto simp add: handleMcpGenerateResources_def required_string_missing required_string_nonblank
        the_str_def strs_def split: jsval.splits)

lemma rejected_GenerateResources_1:
  "guard_passes params (NonBlank ''classroom_id'') \<Longrightarrow>
   string_missing params (NonBlank ''resource_type'') \<Longrightarrow>
   rejection GenerateResources ''resource_type'' (handleMcpGenerateResources rt params)"
  by (rule rejectionI,
      auto simp add: handleMcpGenerateResources_def required_string_missing required_string_nonblank
        the_str_def strs_def split: jsval.splits)

lemma rejected_GenerateResources_3:
  "guard_passes params (NonBlank ''classroom_id'') \<Longrightarrow>
   guard_passes params (NonBlank ''resource_type'') \<Longrightarrow>
   guard_passes params (Allowed ''resource_type'' [''pdf'', ''ppt'']) \<Longrightarrow>
   string_missing params (NonBlank ''user_id'') \<Longrightarrow>
   rejection GenerateResources ''user_id'' (handleMcpGenerateResources rt params)"
  by (rule rejectionI,
      auto simp add: handleMcpGenerateResources_def required_string_missing required_string_nonblank
        the_str_def strs_def split: jsval.splits)

lemma rejected_GenerateResources:
  assumes "i < length (guards GenerateResources)"
    and "\<forall>j<i. guard_passes params (guards GenerateResources ! j)"
    and "string_missing params (guards GenerateResources ! i)"
  shows "rejection GenerateResources (guard_param (guards GenerateResources ! i)) (handleMcpGenerateResources rt params)"
proof -
  from assms(1) consider (c0) "i = 0" | (c1) "i = 1" | (c2) "i = 2" | (c3) "i = 3"
    by (auto simp: less_Suc_eq)
  then show ?thesis
  proof cases
    case c0
    with assms(3)  show ?thesis
      by (simp add: rejected_GenerateResources_0)
  next
    case c1
    with assms(3) assms(2)[rule_format, of 0] show ?thesis
      by (simp add: rejected_GenerateResources_1)
  next
    case c2
    with assms(3) show ?thesis by simp
  next
    case c3
    with assms(3) assms(2)[rule_format, of 0] assms(2)[rule_format, of 1] assms(2)[rule_format, of 2] show ?thesis
      by (simp add: rejected_GenerateResources_3)
  qed
qed

lemma rejected_AnalyzeUserContext_0:
  "string_missing params (NonBlank ''user_id'') \<Longrightarrow>
   rejection AnalyzeUserContext ''user_id'' (handleMcpAnalyzeUserContext rt params)"
  by (rule rejectionI,
      auto simp add: handleMcpAnalyzeUserContext_def required_string_missing required_string_nonblank
        the_str_def strs_def split: jsval.splits)

lemma rejected_AnalyzeUserContext_1:
  "guard_passes params (NonBlank ''user_id'') \<Longrightarrow>
   string_missing params (NonBlank ''session_id'') \<Longrightarrow>
   rejection AnalyzeUserContext ''session_id'' (handleMcpAnalyzeUserContext rt params)"
  by (rule rejectionI,
      auto simp add: handleMcpAnalyzeUserContext_def required_string_missing required_string_nonblank
        the_str_def strs_def split: jsval.splits)

lemma rejected_AnalyzeUserContext:
  assumes "i < length (guards AnalyzeUserContext)"
    and "\<forall>j<i. guard_passes params (guards AnalyzeUserContext ! j)"
    and "string_missing params (guards AnalyzeUserContext ! i)"
  shows "rejection AnalyzeUserContext (guard_param (guards AnalyzeUserContext ! i)) (handleMcpAnalyzeUserContext rt params)"
proof -
  from assms(1) consider (c0) "i = 0" | (c1) "i = 1"
    by (auto simp: less_Suc_eq)
  then show ?thesis
  proof cases
    case c0
    with assms(3)  show ?thesis
      by (simp add: rejected_AnalyzeUserContext_0)
  next
    case c1
    with assms(3) assms(2)[rule_format, of 0] show ?thesis
      by (simp add: rejected_AnalyzeUserContext_1)
  qed
qed

text \<open>
  Claim C3, amended. When a required string parameter is missing (falsy) or, for every
  operation but fiscal advice, blank, and every guard the handler makes before it
  passes, the operation returns a 400 result before any network call; the body's
  \<open>error\<close> names the parameter, \<open>required\<close> lists the operation's required parameters,
  \<open>optional\<close> is listed where the handler lists it, and every operation but fiscal
  advice gives a hint.
\<close>

theorem missing_required_string_rejected:
  assumes "i < length (guards op)"
    and "\<forall>j<i. guard_passes params (guards op ! j)"
    and "string_missing params (guards op ! i)"
  shows "rejection op (guard_param (guards op ! i)) (mcpBridge op rt params)"
proof (cases op)
  case FiscalAdvice
  show ?thesis
    using assms unfolding FiscalAdvice mcpBridge.simps by (rule rejected_FiscalAdvice)
next
  case GenerateEmbedding
  show ?thesis
    using assms unfolding GenerateEmbedding mcpBridge.simps by (rule rejected_GenerateEmbedding)
next
  case StoreDocument
  show ?thesis
    using assms unfolding StoreDocument mcpBridge.simps by (rule rejected_StoreDocument)
next
  case SearchSimilarDocuments
  show ?thesis
    using assms unfolding SearchSimilarDocuments mcpBridge.simps by (rule rejected_SearchSimilarDocuments)
next
  case StoreDocumentChunk
  show ?thesis
    using assms unfolding StoreDocumentChunk mcpBridge.simps by (rule rejected_StoreDocumentChunk)
next
  case SearchSimilarChunks
  show ?thesis
    using assms unfolding SearchSimilarChunks mcpBridge.simps by (rule rejected_SearchSimilarChunks)
next
  case ChatWithClassroom
  show ?thesis
    using assms unfolding ChatWithClassroom mcpBridge.simps by (rule rejected_ChatWithClassroom)
next
  case GetClassroomInfo
  show ?thesis
    using assms unfolding GetClassroomInfo mcpBridge.simps by (rule rejected_GetClassroomInfo)
next
  case CreateEmbedding
  show ?thesis
    using assms unfolding CreateEmbedding mcpBridge.simps by (rule rejected_CreateEmbedding)
next
  case ProfessorAssistant
  show ?thesis
    using assms unfolding ProfessorAssistant mcpBridge.simps by (rule rejected_ProfessorAssistant)
next
  case GenerateResources
  show ?thesis
    using assms unfolding GenerateResources mcpBridge.simps by (rule rejected_GenerateResources)
next
  case AnalyzeUserContext
  show ?thesis
    using assms unfolding AnalyzeUserContext mcpBridge.simps by (rule rejected_AnalyzeUserContext)
qed

theorem missing_required_string_rejected_witness:
  "rejection StoreDocumentChunk (guard_param (guards StoreDocumentChunk ! 2))
     (mcpBridge StoreDocumentChunk (ref_runtime net_down)
        [(''classroom_document_id'', JStr ''d1''), (''chunk_index'', JNum (Num 0)),
         (''content'', JStr ''   '')])"
  by (rule missing_required_string_rejected)
     (simp_all add: numeral_2_eq_2 All_less_Suc param_def nonblank_string_def missing_or_blank_def
        trim_def js_ws_def)

text \<open>
  The claim as stated fails on the fiscal-advice operation, whose 400 body has no
  hint and which accepts a blank \<open>actividad\<close> (the tool call is made), and on the
  store-document-chunk operation, whose 400 body for a missing \<open>content\<close> does not list
  the optional \<open>token_count\<close>.
\<close>

theorem missing_required_string_rejected_counterexample:
  "handleMcpFiscalAdvice (ref_runtime net_down) []
     = ([], Inr \<lparr>statusCode = 400,
                 body = JObj [(''error'', JStr (''Falta el par'' @ [CHR 0xE1] @ ''metro \"actividad\"'')),
                              (''required'', JArr [JStr ''actividad'']),
                              (''optional'', JArr [JStr ''ingresos_anuales'', JStr ''estado'',
                                                   JStr ''regimen_actual'', JStr ''tiene_rfc'',
                                                   JStr ''contexto_adicional''])]\<rparr>) \<and>
   snd (handleMcpFiscalAdvice (ref_runtime net_down) [(''actividad'', JStr ''   '')])
     = Inr \<lparr>statusCode = 500,
            body = JObj [(''error'', JStr ''Error conectando con MCP: connect ECONNREFUSED''),
                         (''timestamp'', JStr ''2023-11-14T22:13:20.000Z'')]\<rparr> \<and>
   length (fst (handleMcpFiscalAdvice (ref_runtime net_down) [(''actividad'', JStr ''   '')])) = 1 \<and>
   handleMcpStoreDocumentChunk (ref_runtime net_down)
       [(''classroom_document_id'', JStr ''d1''), (''chunk_index'', JNum (Num 0))]
     = ([], Inr \<lparr>statusCode = 400,
                 body = JObj [(''error'', JStr (''Falta el par'' @ [CHR 0xE1] @ ''metro \"content\" o est''
                                                 @ [CHR 0xE1] @ '' vac'' @ [CHR 0xED] @ ''o'')),
                              (''required'', JArr [JStr ''classroom_document_id'', JStr ''chunk_index'',
                                                   JStr ''content'']),
                              (''hint'', JStr (''El contenido del chunk no puede estar vac'' @ [CHR 0xED] @ ''o''))]\<rparr>)"
proof -
  have a: "handleMcpFiscalAdvice (ref_runtime net_down) []
     = ([], Inr \<lparr>statusCode = 400,
                 body = JObj [(''error'', JStr (''Falta el par'' @ [CHR 0xE1] @ ''metro \"actividad\"'')),
                              (''required'', JArr [JStr ''actividad'']),
                              (''optional'', JArr [JStr ''ingresos_anuales'', JStr ''estado'',
                                                   JStr ''regimen_actual'', JStr ''tiene_rfc'',
                                                   JStr ''contexto_adicional''])]\<rparr>)"
    by (simp add: handleMcpFiscalAdvice_def param_def bad_request_def strs_def)
  have b: "handleMcpFiscalAdvice (ref_runtime net_down) [(''actividad'', JStr ''   '')]
     = (fst (callMcpTool (ref_runtime net_down) ''get_fiscal_advice''
               (JObj [(''request'', JObj [(''actividad'', JStr ''   ''), (''ingresos_anuales'', JUndefined),
                  (''estado'', JUndefined), (''regimen_actual'', JUndefined), (''tiene_rfc'', JUndefined),
                  (''contexto_adicional'', JUndefined)])])),
        Inr \<lparr>statusCode = 500,
            body = JObj [(''error'', JStr ''Error conectando con MCP: connect ECONNREFUSED''),
                         (''timestamp'', JStr ''2023-11-14T22:13:20.000Z'')]\<rparr>)"
    by (simp add: handleMcpFiscalAdvice_def param_def try_call_def ref_net_down_call timestamp_def)
       (simp add: ref_runtime_def)
  have c: "handleMcpStoreDocumentChunk (ref_runtime net_down)
       [(''classroom_document_id'', JStr ''d1''), (''chunk_index'', JNum (Num 0))]
     = ([], Inr \<lparr>statusCode = 400,
                 body = JObj [(''error'', JStr (''Falta el par'' @ [CHR 0xE1] @ ''metro \"content\" o est''
                                                 @ [CHR 0xE1] @ '' vac'' @ [CHR 0xED] @ ''o'')),
                              (''required'', JArr [JStr ''classroom_document_id'', JStr ''chunk_index'',
                                                   JStr ''content'']),
                              (''hint'', JStr (''El contenido del chunk no puede estar vac'' @ [CHR 0xED] @ ''o''))]\<rparr>)"
    by (simp add: handleMcpStoreDocumentChunk_def param_def required_string_def trim_def js_ws_def
          bad_request_def strs_def)
  show ?thesis
    unfolding a c by (simp add: b ref_net_down_call)
qed

section \<open>The entry point\<close>

text \<open>The paths that no route matches.\<close>

lemma route_unknown_iff:
  "route p = ''unknown'' \<longleftrightarrow>
     \<not> (\<exists>r \<in> set [''/fiscal-advice'', ''/fiscaladvice'', ''/generate-embedding'', ''/embedding'',
                     ''/store-document-chunk'', ''/store-chunk'', ''/search-chunks'', ''/chunks'',
                     ''/chat-classroom'', ''/classroom-info'', ''/classroom'', ''/create-embedding'',
                     ''/professor-assistant'', ''/professor'', ''/generate-resources'', ''/resources'',
                     ''/analyze-user-context'', ''/analyze-context'', ''/health'']. js_includes p r)
     \<and> p \<notin> {''/'', '''', ''/info''}"
  by (simp add: route_def)

text \<open>A preflight request is answered before any routing.\<close>

lemma options_answered_200:
  "js_get event ''httpMethod'' = Some (JStr ''OPTIONS'') \<Longrightarrow>
   handler rt event = ([], Inr (createResponse rt 200 (JObj [(''message'', JStr ''OK'')])))"
  by (simp add: handler_def js_read_def is_options_def)

text \<open>
  An exception that leaves a handler is caught by the entry point: a request body
  \<open>{"text":7}\<close> for \<open>/generate-embedding\<close> is answered with 500 and the TypeError's
  message.
\<close>

lemma entry_point_catches_trim_error:
  "handler (ref_runtime net_down)
     (JObj [(''path'', JStr ''/generate-embedding''), (''httpMethod'', JStr ''POST''),
            (''body'', JStr ''{\"text\":7}'')])
   = ([], Inr (createResponse (ref_runtime net_down) 500
        (JObj [(''error'', JStr ''trim is not a function''), (''stack'', JUndefined),
               (''timestamp'', JStr ''2023-11-14T22:13:20.000Z'')])))"
proof -
  define ev where "ev = JObj [(''path'', JStr ''/generate-embedding''), (''httpMethod'', JStr ''POST''),
            (''body'', JStr ''{\"text\":7}'')]"
  have ep: "getEndpoint (ref_runtime net_down) ev = Inr ''generate-embedding''"
    by (simp add: ev_def getEndpoint_def js_read_def js_or_def route_def strip_trailing_slash_def)
  have "JSON_parse (ref_runtime net_down) ''{\"text\":7}'' = Inr (JObj [(''text'', JNum (Num 7))])"
    by (simp add: ref_runtime_def ref_JSON_parse_def ref_JSON_texts_def)
  then have ps: "extractParams (ref_runtime net_down) ev = Inr [(''text'', JNum (Num 7))]"
    by (simp add: ev_def extractParams_def js_read_def own_props_def)
  have h: "handleMcpGenerateEmbedding (ref_runtime net_down) [(''text'', JNum (Num 7))]
             = ([], Inl (Exn TypeErrorK ''trim is not a function''))"
    by (simp add: handleMcpGenerateEmbedding_def param_def required_string_def
          ref_runtime_def ref_msg_not_function_def)
  have "dispatch (ref_runtime net_down) ev = ([], Inl (Exn TypeErrorK ''trim is not a function''))"
    by (simp add: dispatch_def ep ps endpoint_operation_def h)
  moreover have "js_get ev ''httpMethod'' = Some (JStr ''POST'')" "\<not> is_options (JStr ''POST'') ev"
    by (simp_all add: ev_def is_options_def js_get_opt_def)
  ultimately have "handler (ref_runtime net_down) ev
      = ([], Inr (createResponse (ref_runtime net_down) 500
                    (internal_error_body (ref_runtime net_down) (Exn TypeErrorK ''trim is not a function''))))"
    by (simp add: handler_def js_read_def)
  moreover have "internal_error_body (ref_runtime net_down) (Exn TypeErrorK ''trim is not a function'')
      = JObj [(''error'', JStr ''trim is not a function''), (''stack'', JUndefined),
               (''timestamp'', JStr ''2023-11-14T22:13:20.000Z'')]"
    by (simp add: internal_error_body_def timestamp_def ref_runtime_def)
  ultimately show ?thesis by (simp add: ev_def)
qed

lemma try_call_stamped:
  "\<exists>sent r kvs. try_call rt n a md hint = (sent, Inr r) \<and> body r = JObj kvs \<and>
      stamped rt (statusCode r) kvs"
  by (rule try_call_cases[of rt n a md hint]) (simp_all add: stamped_def)

lemma mcpBridge_stamped:
  assumes "mcpBridge op rt params = (sent, Inr r)"
  shows "\<exists>kvs. body r = JObj kvs \<and> stamped rt (statusCode r) kvs"
proof -
  define out where "out = mcpBridge op rt params"
  have out: "out = (sent, Inr r)" using assms by (simp add: out_def)
  have "shape op rt params out" unfolding out_def by (rule mcpBridge_shape)
  moreover have "\<not> trim_throws op rt params out"
    using out by (simp add: trim_throws_def)
  ultimately consider (reject) "rejects out" | (call) "calls_tool op rt out"
    by (auto simp: shape_def)
  then show ?thesis
  proof cases
    case reject
    with out show ?thesis
      by (auto simp: rejects_def bad_request_def stamped_def)
  next
    case call
    then obtain args md hint where "out = try_call rt (tool_name op) args md hint"
      by (auto simp: calls_tool_def)
    with out try_call_stamped[of rt "tool_name op" args md hint] show ?thesis
      by auto
  qed
qed

lemma info_body_stamped: "\<exists>kvs. info_body rt = JObj kvs \<and> stamped rt 200 kvs"
  by (simp add: info_body_def stamped_def)

lemma health_body_stamped: "\<exists>kvs. health_body rt = JObj kvs \<and> stamped rt 200 kvs"
  by (simp add: health_body_def stamped_def)

lemma not_found_body_stamped:
  "\<exists>kvs. not_found_body rt event endpoint = JObj kvs \<and> stamped rt 404 kvs"
  by (simp add: not_found_body_def stamped_def)

lemma internal_error_body_stamped:
  "\<exists>kvs. internal_error_body rt err = JObj kvs \<and> stamped rt 500 kvs"
  by (simp add: internal_error_body_def stamped_def)

lemma dispatch_stamped:
  assumes "dispatch rt event = (sent, Inr r)"
  shows "\<exists>kvs. body r = JObj kvs \<and> stamped rt (statusCode r) kvs"
proof (cases "getEndpoint rt event")
  case (Inl e)
  with assms show ?thesis by (simp add: dispatch_def)
next
  case ep: (Inr endpoint)
  show ?thesis
  proof (cases "extractParams rt event")
    case (Inl e)
    with assms ep show ?thesis by (simp add: dispatch_def)
  next
    case ps: (Inr params)
    show ?thesis
    proof (cases "endpoint_operation endpoint")
      case (Some op)
      with assms ep ps have "mcpBridge op rt params = (sent, Inr r)"
        by (simp add: dispatch_def)
      then show ?thesis by (rule mcpBridge_stamped)
    next
      case None
      with assms ep ps
      consider "r = \<lparr>statusCode = 200, body = health_body rt\<rparr>"
        | "r = \<lparr>statusCode = 200, body = info_body rt\<rparr>"
        | "r = \<lparr>statusCode = 404, body = not_found_body rt event endpoint\<rparr>"
        by (auto simp: dispatch_def split: if_splits)
      then show ?thesis
        using health_body_stamped[of rt] info_body_stamped[of rt]
              not_found_body_stamped[of rt event endpoint]
        by cases auto
    qed
  qed
qed

text \<open>
  Claim C2, amended. Every response the entry point returns has the fixed CORS
  headers and, as its body, the serialisation of an object. That object carries the
  timestamp when the status is 200, 404 or 500, except for the preflight answer
  \<open>{message: 'OK'}\<close>; the 400 responses carry none.
\<close>

theorem responses_are_serialised_objects:
  assumes "handler rt event = (sent, Inr res)"
  shows "\<exists>kvs. body res = JSON_stringify rt (JObj kvs) \<and>
           headers res = cors_headers \<and>
           (statusCode res = 200 \<and> kvs = [(''message'', JStr ''OK'')]
            \<or> stamped rt (statusCode res) kvs)"
proof (cases "js_get event ''httpMethod''")
  case None
  with assms show ?thesis by (simp add: handler_def js_read_def)
next
  case (Some m)
  show ?thesis
  proof (cases "is_options m event")
    case True
    with assms Some show ?thesis
      by (auto simp: handler_def js_read_def createResponse_def)
  next
    case False
    obtain sent' res' where d: "dispatch rt event = (sent', res')"
      by (cases "dispatch rt event")
    show ?thesis
    proof (cases res')
      case (Inl err)
      with assms Some False d internal_error_body_stamped[of rt err] show ?thesis
        by (auto simp: handler_def js_read_def createResponse_def)
    next
      case (Inr r)
      with d dispatch_stamped[of rt event sent' r]
      obtain kvs where "body r = JObj kvs" "stamped rt (statusCode r) kvs" by auto
      with assms Some False d Inr show ?thesis
        by (auto simp: handler_def js_read_def createResponse_def)
    qed
  qed
qed

lemma handler_get_fiscal_advice:
  "handler rt (get_event ''/fiscal-advice'') =
     ([], Inr (createResponse rt 400
        (JObj [(''error'', JStr (''Falta el par'' @ [CHR 0xE1] @ ''metro \"actividad\"'')),
               (''required'', JArr [JStr ''actividad'']),
               (''optional'', JArr [JStr ''ingresos_anuales'', JStr ''estado'',
                                    JStr ''regimen_actual'', JStr ''tiene_rfc'',
                                    JStr ''contexto_adicional''])])))"
proof -
  have "dispatch rt (get_event ''/fiscal-advice'') = handleMcpFiscalAdvice rt []"
    by (simp add: dispatch_def getEndpoint_get_event extractParams_get_event routes_reached)
  then show ?thesis
    by (simp add: handler_def js_read_def get_event_method get_event_not_options
          handleMcpFiscalAdvice_def param_def bad_request_def strs_def)
qed

theorem responses_are_serialised_objects_witness:
  "\<exists>kvs. body (createResponse (ref_runtime net_down) 400
            (JObj [(''error'', JStr (''Falta el par'' @ [CHR 0xE1] @ ''metro \"actividad\"'')),
                   (''required'', JArr [JStr ''actividad'']),
                   (''optional'', JArr [JStr ''ingresos_anuales'', JStr ''estado'',
                                        JStr ''regimen_actual'', JStr ''tiene_rfc'',
                                        JStr ''contexto_adicional''])]))
           = JSON_stringify (ref_runtime net_down) (JObj kvs) \<and>
         headers (createResponse (ref_runtime net_down) 400
            (JObj [(''error'', JStr (''Falta el par'' @ [CHR 0xE1] @ ''metro \"actividad\"'')),
                   (''required'', JArr [JStr ''actividad'']),
                   (''optional'', JArr [JStr ''ingresos_anuales'', JStr ''estado'',
                                        JStr ''regimen_actual'', JStr ''tiene_rfc'',
                                        JStr ''contexto_adicional''])])) = cors_headers \<and>
         (statusCode (createResponse (ref_runtime net_down) 400
            (JObj [(''error'', JStr (''Falta el par'' @ [CHR 0xE1] @ ''metro \"actividad\"'')),
                   (''required'', JArr [JStr ''actividad'']),
                   (''optional'', JArr [JStr ''ingresos_anuales'', JStr ''estado'',
                                        JStr ''regimen_actual'', JStr ''tiene_rfc'',
                                        JStr ''contexto_adicional''])])) = 200 \<and>
            kvs = [(''message'', JStr ''OK'')]
          \<or> stamped (ref_runtime net_down)
               (statusCode (createResponse (ref_runtime net_down) 400
            (JObj [(''error'', JStr (''Falta el par'' @ [CHR 0xE1] @ ''metro \"actividad\"'')),
                   (''required'', JArr [JStr ''actividad'']),
                   (''optional'', JArr [JStr ''ingresos_anuales'', JStr ''estado'',
                                        JStr ''regimen_actual'', JStr ''tiene_rfc'',
                                        JStr ''contexto_adicional''])]))) kvs)"
  by (rule responses_are_serialised_objects[OF handler_get_fiscal_advice])

text \<open>
  The claim as stated fails on every validation response and on the preflight
  answer: the 400 body of a fiscal-advice request without parameters has no
  timestamp, and neither has the body of the answer to an OPTIONS request.
\<close>

theorem responses_are_serialised_objects_counterexample:
  "handler (ref_runtime net_down) (get_event ''/fiscal-advice'') =
     ([], Inr (createResponse (ref_runtime net_down) 400
        (JObj [(''error'', JStr (''Falta el par'' @ [CHR 0xE1] @ ''metro \"actividad\"'')),
               (''required'', JArr [JStr ''actividad'']),
               (''optional'', JArr [JStr ''ingresos_anuales'', JStr ''estado'',
                                    JStr ''regimen_actual'', JStr ''tiene_rfc'',
                                    JStr ''contexto_adicional''])]))) \<and>
   handler (ref_runtime net_down) (JObj [(''path'', JStr ''/health''), (''httpMethod'', JStr ''OPTIONS'')]) =
     ([], Inr (createResponse (ref_runtime net_down) 200 (JObj [(''message'', JStr ''OK'')])))"
  by (simp add: handler_get_fiscal_advice) (simp add: handler_def js_read_def is_options_def)

text \<open>
  Claim C9, amended. For every event that is no preflight, whose path matches none of
  the routes and whose parameters can be extracted, the entry point sends nothing and
  answers 404; the \<open>available_endpoints\<close> of the body are \<open>/health\<close> and the routes of
  the ten operations the dispatcher reaches, eleven entries in all.
\<close>

theorem unknown_path_is_not_found:
  assumes "js_get event ''httpMethod'' = Some m"
    and "\<not> is_options m event"
    and "getEndpoint rt event = Inr ''unknown''"
    and "extractParams rt event = Inr params"
  shows "handler rt event = ([], Inr (createResponse rt 404 (not_found_body rt event ''unknown''))) \<and>
         statusCode (createResponse rt 404 (not_found_body rt event ''unknown'')) = 404 \<and>
         js_get (not_found_body rt event ''unknown'') ''available_endpoints'' =
           Some (JArr [JStr ''/health'', JStr ''/generate-embedding'', JStr ''/create-embedding'',
                       JStr ''/store-document-chunk'', JStr ''/search-chunks'',
                       JStr ''/chat-classroom'', JStr ''/classroom-info'',
                       JStr ''/professor-assistant'', JStr ''/generate-resources'',
                       JStr ''/analyze-user-context'', JStr ''/fiscal-advice (legacy)''])"
  using assms
  by (simp add: handler_def js_read_def dispatch_def endpoint_operation_def createResponse_def
        not_found_body_def available_endpoints_def strs_def)

lemma route_nope: "route (strip_trailing_slash ''/nope'') = ''unknown''"
  by (simp add: route_def strip_trailing_slash_def)

theorem unknown_path_is_not_found_witness:
  "handler (ref_runtime net_down) (get_event ''/nope'')
     = ([], Inr (createResponse (ref_runtime net_down) 404
                   (not_found_body (ref_runtime net_down) (get_event ''/nope'') ''unknown''))) \<and>
   statusCode (createResponse (ref_runtime net_down) 404
                   (not_found_body (ref_runtime net_down) (get_event ''/nope'') ''unknown'')) = 404 \<and>
   js_get (not_found_body (ref_runtime net_down) (get_event ''/nope'') ''unknown'') ''available_endpoints'' =
           Some (JArr [JStr ''/health'', JStr ''/generate-embedding'', JStr ''/create-embedding'',
                       JStr ''/store-document-chunk'', JStr ''/search-chunks'',
                       JStr ''/chat-classroom'', JStr ''/classroom-info'',
                       JStr ''/professor-assistant'', JStr ''/generate-resources'',
                       JStr ''/analyze-user-context'', JStr ''/fiscal-advice (legacy)''])"
  by (rule unknown_path_is_not_found[OF get_event_method get_event_not_options _ extractParams_get_event])
     (simp add: getEndpoint_get_event route_nope)

text \<open>
  The claim as stated fails at the path \<open>/nope\<close>: the list has eleven entries, not the
  thirteen that twelve routes and \<open>/health\<close> would make, and an OPTIONS request for the
  same path is answered with 200.
\<close>

theorem unknown_path_is_not_found_counterexample:
  "handler (ref_runtime net_down) (get_event ''/nope'')
     = ([], Inr (createResponse (ref_runtime net_down) 404
                   (not_found_body (ref_runtime net_down) (get_event ''/nope'') ''unknown''))) \<and>
   js_get (not_found_body (ref_runtime net_down) (get_event ''/nope'') ''unknown'') ''available_endpoints''
     = Some (strs available_endpoints) \<and>
   length available_endpoints = 11 \<and>
   handler (ref_runtime net_down) (JObj [(''path'', JStr ''/nope''), (''httpMethod'', JStr ''OPTIONS'')])
     = ([], Inr (createResponse (ref_runtime net_down) 200 (JObj [(''message'', JStr ''OK'')])))"
proof -
  have "handler (ref_runtime net_down) (get_event ''/nope'')
     = ([], Inr (createResponse (ref_runtime net_down) 404
                   (not_found_body (ref_runtime net_down) (get_event ''/nope'') ''unknown'')))"
    by (simp add: handler_def js_read_def get_event_method get_event_not_options dispatch_def
          getEndpoint_get_event extractParams_get_event route_nope endpoint_operation_def)
  moreover have "handler (ref_runtime net_down)
                (JObj [(''path'', JStr ''/nope''), (''httpMethod'', JStr ''OPTIONS'')])
     = ([], Inr (createResponse (ref_runtime net_down) 200 (JObj [(''message'', JStr ''OK'')])))"
    by (simp add: handler_def js_read_def is_options_def)
  ultimately show ?thesis
    by (simp add: not_found_body_def available_endpoints_def)
qed

section \<open>The numeric parameters of the two search operations\<close>

lemma ref_parseInt_examples:
  "parseInt (ref_runtime net) (JStr ''0'') = Num 0"
  "parseInt (ref_runtime net) (JStr ''51'') = Num 51"
  "parseInt (ref_runtime net) (JStr ''abc'') = NaN"
  "parseInt (ref_runtime net) (JStr ''1'') = Num 1"
  "parseInt (ref_runtime net) (JStr ''50'') = Num 50"
  "parseInt (ref_runtime net) (JNum (Num 5)) = Num 5"
  by (simp_all add: ref_runtime_def parseInt_string_def split_sign_def is_digit_def digits_value_def js_ws_def)

lemma ref_parseFloat_examples:
  "parseFloat (ref_runtime net) (JStr ''-0.1'') = Num (- 1 / 10)"
  "parseFloat (ref_runtime net) (JStr ''1.1'') = Num (11 / 10)"
  "parseFloat (ref_runtime net) (JStr ''0'') = Num 0"
  "parseFloat (ref_runtime net) (JStr ''1'') = Num 1"
  by (simp_all add: ref_runtime_def parseFloat_string_def split_sign_def is_digit_def digits_value_def
        js_ws_def exponent_of_def scale10_def)

lemma ref_ok_call:
  "snd (callMcpTool (ref_runtime ok_net) n a) = Inr (JObj [(''ok'', JNum (Num 1))])"
  by (simp add: ok_net_def callMcpTool_def ref_MCP_SERVER_URL ref_makeHttpRequest_mcp ref_on_end_json
        ref_JSON_parse_def ref_JSON_texts_def js_read_def)

lemma try_call_status_of:
  "status_of (try_call rt n a md hint) = Some (case snd (callMcpTool rt n a) of Inl e \<Rightarrow> 500 | Inr v \<Rightarrow> 200)"
  by (rule try_call_cases[of rt n a md hint]) (simp_all add: status_of_def)

lemma bad_request_status_of: "status_of (bad_request kvs) = Some 400"
  by (simp add: status_of_def bad_request_def)

text \<open>
  \<open>handleMcpSearchSimilarDocuments\<close> validates both parameters: a limit that parses to
  NaN or outside 1..50, and a threshold that is given and parses to NaN or outside
  0..1, are answered with 400 and the received value; everything else reaches the tool.
\<close>

lemma documents_limit_rejected:
  assumes "nonblank_string (param params ''query_text'')"
    and "isNaN (parseInt rt (param_default params ''limit'' (JNum (Num 5)))) \<or>
         js_lt (parseInt rt (param_default params ''limit'' (JNum (Num 5)))) (Num 1) \<or>
         js_lt (Num 50) (parseInt rt (param_default params ''limit'' (JNum (Num 5))))"
  shows "\<exists>kvs. handleMcpSearchSimilarDocuments rt params = ([], Inr \<lparr>statusCode = 400, body = JObj kvs\<rparr>) \<and>
           map_of kvs ''received'' = Some (param_default params ''limit'' (JNum (Num 5)))"
  using assms
  by (simp add: handleMcpSearchSimilarDocuments_def Let_def required_string_nonblank bad_request_def)

lemma documents_threshold_rejected:
  assumes "nonblank_string (param params ''query_text'')"
    and "\<not> (isNaN (parseInt rt (param_default params ''limit'' (JNum (Num 5)))) \<or>
         js_lt (parseInt rt (param_default params ''limit'' (JNum (Num 5)))) (Num 1) \<or>
         js_lt (Num 50) (parseInt rt (param_default params ''limit'' (JNum (Num 5)))))"
    and "param params ''threshold'' \<noteq> JUndefined"
    and "isNaN (parseFloat rt (param params ''threshold'')) \<or>
         js_lt (parseFloat rt (param params ''threshold'')) (Num 0) \<or>
         js_lt (Num 1) (parseFloat rt (param params ''threshold''))"
  shows "\<exists>kvs. handleMcpSearchSimilarDocuments rt params = ([], Inr \<lparr>statusCode = 400, body = JObj kvs\<rparr>) \<and>
           map_of kvs ''received'' = Some (param params ''threshold'')"
  using assms
  by (simp add: handleMcpSearchSimilarDocuments_def Let_def required_string_nonblank bad_request_def)

lemma documents_examples:
  "status_of (handleMcpSearchSimilarDocuments (ref_runtime ok_net)
      [(''query_text'', JStr ''embeddings''), (''limit'', JStr ''0'')]) = Some 400"
  "status_of (handleMcpSearchSimilarDocuments (ref_runtime ok_net)
      [(''query_text'', JStr ''embeddings''), (''limit'', JStr ''51'')]) = Some 400"
  "status_of (handleMcpSearchSimilarDocuments (ref_runtime ok_net)
      [(''query_text'', JStr ''embeddings''), (''limit'', JStr ''abc'')]) = Some 400"
  "status_of (handleMcpSearchSimilarDocuments (ref_runtime ok_net)
      [(''query_text'', JStr ''embeddings''), (''limit'', JStr ''1'')]) = Some 200"
  "status_of (handleMcpSearchSimilarDocuments (ref_runtime ok_net)
      [(''query_text'', JStr ''embeddings''), (''limit'', JStr ''50'')]) = Some 200"
  "status_of (handleMcpSearchSimilarDocuments (ref_runtime ok_net)
      [(''query_text'', JStr ''embeddings''), (''threshold'', JStr ''-0.1'')]) = Some 400"
  "status_of (handleMcpSearchSimilarDocuments (ref_runtime ok_net)
      [(''query_text'', JStr ''embeddings''), (''threshold'', JStr ''1.1'')]) = Some 400"
  "status_of (handleMcpSearchSimilarDocuments (ref_runtime ok_net)
      [(''query_text'', JStr ''embeddings''), (''threshold'', JStr ''0'')]) = Some 200"
  "status_of (handleMcpSearchSimilarDocuments (ref_runtime ok_net)
      [(''query_text'', JStr ''embeddings''), (''threshold'', JStr ''1'')]) = Some 200"
  by (simp_all add: handleMcpSearchSimilarDocuments_def param_def param_default_def
        required_string_def trim_def js_ws_def Let_def ref_parseInt_examples ref_parseFloat_examples
        isNaN_def js_lt_def bad_request_status_of try_call_status_of ref_ok_call)

text \<open>
  \<open>handleMcpSearchSimilarChunks\<close> makes neither check: once its two strings pass, it
  never answers 400, whatever the limit and the threshold.
\<close>

lemma chunks_never_rejects_numbers:
  assumes "nonblank_string (param params ''query_text'')"
    and "nonblank_string (param params ''classroom_id'')"
  shows "status_of (handleMcpSearchSimilarChunks rt params) = Some 200 \<or>
         status_of (handleMcpSearchSimilarChunks rt params) = Some 500"
  using assms
  by (simp add: handleMcpSearchSimilarChunks_def Let_def required_string_nonblank try_call_status_of
        split: sum.splits)

text \<open>
  Claim C4, at the search-chunks operation with the limits \<open>0\<close>, \<open>51\<close> and \<open>abc\<close> and
  the thresholds \<open>-0.1\<close> and \<open>1.1\<close>: each request is passed to the backend and answered
  with 200, where the claim (and the sibling handler) answers 400.
\<close>

theorem search_chunks_does_not_validate:
  "status_of (handleMcpSearchSimilarChunks (ref_runtime ok_net)
      [(''query_text'', JStr ''embeddings''), (''classroom_id'', JStr ''c1''),
       (''limit'', JStr ''0'')]) = Some 200 \<and>
   status_of (handleMcpSearchSimilarChunks (ref_runtime ok_net)
      [(''query_text'', JStr ''embeddings''), (''classroom_id'', JStr ''c1''),
       (''limit'', JStr ''51'')]) = Some 200 \<and>
   status_of (handleMcpSearchSimilarChunks (ref_runtime ok_net)
      [(''query_text'', JStr ''embeddings''), (''classroom_id'', JStr ''c1''),
       (''limit'', JStr ''abc'')]) = Some 200 \<and>
   status_of (handleMcpSearchSimilarChunks (ref_runtime ok_net)
      [(''query_text'', JStr ''embeddings''), (''classroom_id'', JStr ''c1''),
       (''threshold'', JStr ''-0.1'')]) = Some 200 \<and>
   status_of (handleMcpSearchSimilarChunks (ref_runtime ok_net)
      [(''query_text'', JStr ''embeddings''), (''classroom_id'', JStr ''c1''),
       (''threshold'', JStr ''1.1'')]) = Some 200"
  by (simp add: handleMcpSearchSimilarChunks_def param_def param_default_def
        required_string_def trim_def js_ws_def Let_def try_call_status_of ref_ok_call)

end
